theory Spec2Isabelle
  imports Main "HOL-Library.Word"
begin

unbundle bit_operations_syntax

section \<open>Memory, alignment and Datums\<close>

text \<open>
  This theory embeds the heap tuple routines of
  \<^verbatim>\<open>src/backend/access/common/heaptuple.c\<close>. A block of memory is a list of
  bytes, a pointer into a block is the list of bytes readable from it (pointer
  arithmetic is \<open>drop\<close>) or an index into the block, and \<open>NULL\<close> is \<open>None\<close>.
  C leaves a read or a write outside a block undefined: here such a read
  yields a zero byte and such a write is dropped, and the theorems below are
  stated for tuples whose blocks cover what is read and written.
\<close>

type_synonym byte = "8 word"

definition byte_at :: "byte list \<Rightarrow> nat \<Rightarrow> byte" where
  "byte_at m p = (if p < length m then m ! p else 0)"

definition mem_read :: "byte list \<Rightarrow> nat \<Rightarrow> nat \<Rightarrow> byte list" where
  "mem_read m p n = map (byte_at m) [p..<p + n]"

definition mem_write :: "byte list \<Rightarrow> nat \<Rightarrow> byte list \<Rightarrow> byte list" where
  "mem_write m p bs = take (length m) (take p m @ bs @ drop (p + length bs) m)"

text \<open>A byte addressed by a possibly negative index (\<open>&bit[-1]\<close> in \<open>heap_fill_tuple\<close>).\<close>

definition peek :: "byte list \<Rightarrow> int \<Rightarrow> byte" where
  "peek m p = (if 0 \<le> p then byte_at m (nat p) else 0)"

definition poke :: "byte list \<Rightarrow> int \<Rightarrow> byte \<Rightarrow> byte list" where
  "poke m p b = (if 0 \<le> p then m[nat p := b] else m)"

text \<open>\<open>strlen\<close>: the number of bytes before the first zero byte.\<close>

definition strlen :: "byte list \<Rightarrow> nat" where
  "strlen p = length (takeWhile (\<lambda>b. b \<noteq> 0) p)"

text \<open>
  Modelled from the spec: the alignment macros of \<^verbatim>\<open>c.h\<close> and
  \<^verbatim>\<open>access/tupmacs.h\<close> are not among the sources. Section 4.1 of the spec:
  \<open>align\<close> rounds an offset up to the boundary of the alignment class, which is
  a no-op, 2, 4 or 8 bytes.
\<close>

definition TYPEALIGN :: "nat \<Rightarrow> nat \<Rightarrow> nat" where
  "TYPEALIGN a len = ((len + (a - 1)) div a) * a"

text \<open>Modelled from the spec: \<open>MAXALIGN\<close> (\<^verbatim>\<open>c.h\<close>), the 8-byte boundary of section 4.1.\<close>

definition MAXALIGN :: "nat \<Rightarrow> nat" where
  "MAXALIGN len = TYPEALIGN 8 len"

text \<open>
  Modelled from the spec: \<open>att_align_nominal\<close> (\<^verbatim>\<open>access/tupmacs.h\<close>), section 4.1,
  with the alignment classes written as the catalog writes them: \<open>c\<close> (byte),
  \<open>s\<close> (short), \<open>i\<close> (int) and \<open>d\<close> (double).
\<close>

definition att_align_nominal :: "nat \<Rightarrow> char \<Rightarrow> nat" where
  "att_align_nominal cur_offset al =
     (if al = CHR ''i'' then TYPEALIGN 4 cur_offset
      else if al = CHR ''c'' then cur_offset
      else if al = CHR ''d'' then TYPEALIGN 8 cur_offset
      else TYPEALIGN 2 cur_offset)"

subsection \<open>Variable-length values\<close>

text \<open>
  Modelled from the spec: the varlena header macros of \<^verbatim>\<open>postgres.h\<close> are not
  among the sources. Sections 4.2 and 6 of the spec: a 1-byte header has its
  high bit set and a total size of at most 127 bytes; a 4-byte header has the
  high bit clear, its next bit tells plain from compressed, and its low bits
  hold the length. A 1-byte header whose seven length bits are all zero
  announces an external reference, whose second byte is its tag.
\<close>

definition VARATT_IS_1B :: "byte list \<Rightarrow> bool" where
  "VARATT_IS_1B p = (128 \<le> unat (byte_at p 0))"

text \<open>Modelled from the spec: \<open>VARATT_IS_1B_E\<close> (\<^verbatim>\<open>postgres.h\<close>), section 4.2.\<close>

definition VARATT_IS_1B_E :: "byte list \<Rightarrow> bool" where
  "VARATT_IS_1B_E p = (unat (byte_at p 0) = 128)"

text \<open>Modelled from the spec: \<open>VARATT_IS_4B_U\<close> (\<^verbatim>\<open>postgres.h\<close>), section 6.\<close>

definition VARATT_IS_4B_U :: "byte list \<Rightarrow> bool" where
  "VARATT_IS_4B_U p = (unat (byte_at p 0) < 64)"

text \<open>Modelled from the spec: \<open>VARATT_NOT_PAD_BYTE\<close> (\<^verbatim>\<open>postgres.h\<close>), section 4.2.\<close>

definition VARATT_NOT_PAD_BYTE :: "byte list \<Rightarrow> bool" where
  "VARATT_NOT_PAD_BYTE p = (byte_at p 0 \<noteq> 0)"

text \<open>Modelled from the spec: \<open>VARSIZE_1B\<close> (\<^verbatim>\<open>postgres.h\<close>), section 6.\<close>

definition VARSIZE_1B :: "byte list \<Rightarrow> nat" where
  "VARSIZE_1B p = unat (byte_at p 0) mod 128"

text \<open>
  Modelled from the spec: \<open>VARSIZE_4B\<close> (\<^verbatim>\<open>postgres.h\<close>), section 6: the low 30
  bits of the 4-byte header, most significant byte first.
\<close>

definition VARSIZE_4B :: "byte list \<Rightarrow> nat" where
  "VARSIZE_4B p =
     (unat (byte_at p 0) * 2 ^ 24 + unat (byte_at p 1) * 2 ^ 16 +
      unat (byte_at p 2) * 2 ^ 8 + unat (byte_at p 3)) mod 2 ^ 30"

text \<open>
  Modelled from the spec: the tags of an external reference (\<^verbatim>\<open>postgres.h\<close>):
  indirect, expanded (read-only and read-write) and on-disk, with the sizes
  of their bodies. Section 4.2 of the spec names the expanded form.
\<close>

definition VARTAG_INDIRECT :: nat where "VARTAG_INDIRECT = 1"
definition VARTAG_EXPANDED_RO :: nat where "VARTAG_EXPANDED_RO = 2"
definition VARTAG_EXPANDED_RW :: nat where "VARTAG_EXPANDED_RW = 3"
definition VARTAG_ONDISK :: nat where "VARTAG_ONDISK = 18"

definition VARTAG_IS_EXPANDED :: "nat \<Rightarrow> bool" where
  "VARTAG_IS_EXPANDED tag = (tag = VARTAG_EXPANDED_RO \<or> tag = VARTAG_EXPANDED_RW)"

text \<open>
  Modelled from the spec: \<open>VARTAG_SIZE\<close> (\<^verbatim>\<open>postgres.h\<close>). An unrecognised tag
  trips an assertion there; the model gives it no body.
\<close>

definition VARTAG_SIZE :: "nat \<Rightarrow> nat" where
  "VARTAG_SIZE tag =
     (if tag = VARTAG_INDIRECT then 8
      else if VARTAG_IS_EXPANDED tag then 8
      else if tag = VARTAG_ONDISK then 16
      else 0)"

definition VARTAG_EXTERNAL :: "byte list \<Rightarrow> nat" where
  "VARTAG_EXTERNAL p = unat (byte_at p 1)"

definition VARHDRSZ :: nat where "VARHDRSZ = 4"
definition VARHDRSZ_SHORT :: nat where "VARHDRSZ_SHORT = 1"
definition VARHDRSZ_EXTERNAL :: nat where "VARHDRSZ_EXTERNAL = 2"
definition VARATT_SHORT_MAX :: nat where "VARATT_SHORT_MAX = 127"

definition VARSIZE_EXTERNAL :: "byte list \<Rightarrow> nat" where
  "VARSIZE_EXTERNAL p = VARHDRSZ_EXTERNAL + VARTAG_SIZE (VARTAG_EXTERNAL p)"

definition VARATT_IS_EXTERNAL :: "byte list \<Rightarrow> bool" where
  "VARATT_IS_EXTERNAL p = VARATT_IS_1B_E p"

definition VARATT_IS_EXTERNAL_EXPANDED :: "byte list \<Rightarrow> bool" where
  "VARATT_IS_EXTERNAL_EXPANDED p =
     (VARATT_IS_EXTERNAL p \<and> VARTAG_IS_EXPANDED (VARTAG_EXTERNAL p))"

definition VARATT_IS_SHORT :: "byte list \<Rightarrow> bool" where
  "VARATT_IS_SHORT p = VARATT_IS_1B p"

definition VARSIZE :: "byte list \<Rightarrow> nat" where
  "VARSIZE p = VARSIZE_4B p"

definition VARSIZE_SHORT :: "byte list \<Rightarrow> nat" where
  "VARSIZE_SHORT p = VARSIZE_1B p"

text \<open>
  Modelled from the spec: \<open>VARATT_CONVERTED_SHORT_SIZE\<close> and
  \<open>VARATT_CAN_MAKE_SHORT\<close> (\<^verbatim>\<open>postgres.h\<close>), the packing policy of section 4.2:
  the size the value has once its 4-byte header is replaced by a 1-byte one,
  and whether the 1-byte header can hold that size. The subtraction is the
  unsigned 32-bit one of the header field.
\<close>

definition VARATT_CONVERTED_SHORT_SIZE :: "byte list \<Rightarrow> nat" where
  "VARATT_CONVERTED_SHORT_SIZE p =
     (VARSIZE p + 2 ^ 32 - VARHDRSZ) mod 2 ^ 32 + VARHDRSZ_SHORT"

definition VARATT_CAN_MAKE_SHORT :: "byte list \<Rightarrow> bool" where
  "VARATT_CAN_MAKE_SHORT p =
     (VARATT_IS_4B_U p \<and> VARATT_CONVERTED_SHORT_SIZE p \<le> VARATT_SHORT_MAX)"

text \<open>
  Modelled from the spec: \<open>SET_VARSIZE_SHORT\<close> (\<^verbatim>\<open>postgres.h\<close>), section 6: the
  1-byte header is the length with the high bit set, \<open>len | 0x80\<close> in eight bits.
\<close>

definition SET_VARSIZE_SHORT :: "nat \<Rightarrow> byte" where
  "SET_VARSIZE_SHORT len = of_nat (128 + len mod 128)"

definition VARDATA :: "byte list \<Rightarrow> byte list" where
  "VARDATA p = drop VARHDRSZ p"

definition VARSIZE_ANY :: "byte list \<Rightarrow> nat" where
  "VARSIZE_ANY p =
     (if VARATT_IS_1B_E p then VARSIZE_EXTERNAL p
      else if VARATT_IS_1B p then VARSIZE_1B p
      else VARSIZE_4B p)"

subsection \<open>Datums\<close>

text \<open>
  A \<open>Datum\<close> is a scalar passed by value, a pointer to bytes, or a pointer to
  the TOAST pointer of an expanded object. The expanded object itself lives
  outside this file (\<^verbatim>\<open>utils/expandeddatum.h\<close>); it is represented by the flat
  image its \<open>get_flat_size\<close> and \<open>flatten_into\<close> methods produce.
\<close>

datatype Datum = Scalar "64 word" | Pointer "byte list" | Expanded "byte list"

definition DatumGetPointer :: "Datum \<Rightarrow> byte list" where
  "DatumGetPointer d =
     (case d of
        Scalar w \<Rightarrow> []
      | Pointer p \<Rightarrow> p
      | Expanded flat \<Rightarrow> [128, of_nat VARTAG_EXPANDED_RO] @ replicate 8 0)"

definition DatumGetEOHP :: "Datum \<Rightarrow> byte list" where
  "DatumGetEOHP d = (case d of Expanded flat \<Rightarrow> flat | _ \<Rightarrow> [])"

definition EOH_get_flat_size :: "byte list \<Rightarrow> nat" where
  "EOH_get_flat_size eoh = length eoh"

definition EOH_flatten_into :: "byte list \<Rightarrow> nat \<Rightarrow> byte list" where
  "EOH_flatten_into eoh allocated_size = mem_read eoh 0 allocated_size"

definition DatumGetScalar :: "Datum \<Rightarrow> 64 word" where
  "DatumGetScalar d = (case d of Scalar w \<Rightarrow> w | _ \<Rightarrow> 0)"

text \<open>The \<open>n\<close> low bytes of a number, most significant first, and back.\<close>

fun be_bytes :: "nat \<Rightarrow> nat \<Rightarrow> byte list" where
  "be_bytes 0 x = []"
| "be_bytes (Suc n) x = be_bytes n (x div 256) @ [of_nat (x mod 256)]"

definition be_value :: "byte list \<Rightarrow> nat" where
  "be_value bs = foldl (\<lambda>acc b. acc * 256 + unat b) 0 bs"

text \<open>
  What a routine can end with instead of returning: \<open>elog(ERROR, fmt, args)\<close>,
  \<open>ereport(ERROR, errcode)\<close>, a store or load through \<open>NULL\<close>, and an index that
  runs off the end of an array.
\<close>

datatype error =
    elog_ERROR string "int list"
  | ereport_ERROR string
  | NullPointerDereference
  | ArrayOverrun

text \<open>
  Modelled from the spec: \<open>store_att_byval\<close> and \<open>fetch_att\<close>
  (\<^verbatim>\<open>access/tupmacs.h\<close>), the pass-by-value path of section 4.3: a scalar of
  1, 2, 4 or 8 bytes is stored into the slot and read back from it.
\<close>

definition store_att_byval :: "Datum \<Rightarrow> int \<Rightarrow> error + byte list" where
  "store_att_byval newdatum attlength =
     (if attlength = 1 \<or> attlength = 2 \<or> attlength = 4 \<or> attlength = 8
      then Inr (be_bytes (nat attlength) (unat (DatumGetScalar newdatum)))
      else Inl (elog_ERROR ''unsupported byval length: %d'' [attlength]))"

definition fetch_att :: "byte list \<Rightarrow> bool \<Rightarrow> int \<Rightarrow> Datum" where
  "fetch_att T byval attlength =
     (if byval then
        (if attlength = 8 then Scalar (of_nat (be_value (mem_read T 0 8)))
         else if attlength = 4 then Scalar (of_nat (be_value (mem_read T 0 4)))
         else if attlength = 2 then Scalar (of_nat (be_value (mem_read T 0 2)))
         else Scalar (of_nat (be_value (mem_read T 0 1))))
      else Pointer T)"

section \<open>Tuple descriptors\<close>

text \<open>
  \<open>attcacheoff\<close>, the one mutable field of an attribute, is kept apart from
  the immutable ones: the decoding routines below take and return the array
  of the \<open>attcacheoff\<close> values of the attributes they walk.
\<close>

record Form_pg_attribute =
  atttypid :: nat
  attlen :: int
  attbyval :: bool
  attstorage :: char
  attalign :: char
  attisdropped :: bool
  atthasmissing :: bool

record AttrMissing =
  ammissingPresent :: bool
  ammissing :: Datum

record TupleDesc =
  attrs :: "Form_pg_attribute list"
  attrs_ext :: "Form_pg_attribute list"
  transp_crypt_attrs_ext :: bool
  tdhasoid :: bool
  tdtypeid :: nat
  tdtypmod :: int
  constr_missing :: "AttrMissing list option"

text \<open>\<open>natts\<close> is the length of the \<open>attrs\<close> array.\<close>

definition natts :: "TupleDesc \<Rightarrow> nat" where
  "natts tupleDesc = length (attrs tupleDesc)"

text \<open>
  The local variable \<open>att\<close> of the routines: \<open>tupleDesc->attrs\<close>, replaced by
  \<open>tupleDesc->attrs_ext\<close> when \<open>TRANSP_CRYPT_ATTRS_EXT_IS_ENABLED\<close> holds.
\<close>

definition tuple_att :: "TupleDesc \<Rightarrow> Form_pg_attribute list" where
  "tuple_att tupleDesc =
     (if transp_crypt_attrs_ext tupleDesc then attrs_ext tupleDesc else attrs tupleDesc)"

definition ATT_IS_PACKABLE :: "Form_pg_attribute \<Rightarrow> bool" where
  "ATT_IS_PACKABLE att = (attlen att = -1 \<and> attstorage att \<noteq> CHR ''p'')"

definition VARLENA_ATT_IS_PACKABLE :: "Form_pg_attribute \<Rightarrow> bool" where
  "VARLENA_ATT_IS_PACKABLE att = (attstorage att \<noteq> CHR ''p'')"

text \<open>
  Modelled from the spec: \<open>att_align_datum\<close>, \<open>att_align_pointer\<close>,
  \<open>att_addlength_pointer\<close> and \<open>att_addlength_datum\<close> (\<^verbatim>\<open>access/tupmacs.h\<close>),
  sections 4.1 and 4.2: a value in 1-byte-header form is never aligned; on
  read, a zero byte at the current position is padding; \<open>value_length\<close> is the
  fixed length, the physical size of the variable-length encoding, or
  \<open>strlen + 1\<close>.
\<close>

definition att_align_datum :: "nat \<Rightarrow> char \<Rightarrow> int \<Rightarrow> Datum \<Rightarrow> nat" where
  "att_align_datum cur_offset al attlength attdatum =
     (if attlength = -1 \<and> VARATT_IS_SHORT (DatumGetPointer attdatum) then cur_offset
      else att_align_nominal cur_offset al)"

definition att_align_pointer :: "nat \<Rightarrow> char \<Rightarrow> int \<Rightarrow> byte list \<Rightarrow> nat" where
  "att_align_pointer cur_offset al attlength attptr =
     (if attlength = -1 \<and> VARATT_NOT_PAD_BYTE attptr then cur_offset
      else att_align_nominal cur_offset al)"

definition att_addlength_pointer :: "nat \<Rightarrow> int \<Rightarrow> byte list \<Rightarrow> nat" where
  "att_addlength_pointer cur_offset attlength attptr =
     (if 0 < attlength then cur_offset + nat attlength
      else if attlength = -1 then cur_offset + VARSIZE_ANY attptr
      else cur_offset + (strlen attptr + 1))"

definition att_addlength_datum :: "nat \<Rightarrow> int \<Rightarrow> Datum \<Rightarrow> nat" where
  "att_addlength_datum cur_offset attlength attdatum =
     att_addlength_pointer cur_offset attlength (DatumGetPointer attdatum)"

section \<open>Building a tuple\<close>

text \<open>
  Modelled from the spec: the infomask bits of \<^verbatim>\<open>access/htup_details.h\<close>, the
  summary flags of section 4.3.
\<close>

definition HEAP_HASNULL :: "16 word" where "HEAP_HASNULL = 0x0001"
definition HEAP_HASVARWIDTH :: "16 word" where "HEAP_HASVARWIDTH = 0x0002"
definition HEAP_HASEXTERNAL :: "16 word" where "HEAP_HASEXTERNAL = 0x0004"
definition HEAP_HASOID :: "16 word" where "HEAP_HASOID = 0x0008"
definition HIGHBIT :: int where "HIGHBIT = 0x80"

text \<open>
  The state \<open>fill_val\<close> works on through its pointer arguments: the bitmap
  cursor \<open>*bit\<close> (an index into the bitmap area, \<open>None\<close> for \<open>NULL\<close>),
  \<open>*bitmask\<close>, the data cursor \<open>*dataP\<close> (an index into the data area, which
  starts on a \<open>MAXALIGN\<close> boundary in every caller, so that aligning the
  pointer is aligning the index), \<open>*infomask\<close>, and the two areas.
\<close>

record fill_state =
  fs_bitP :: "int option"
  fs_bitmask :: int
  fs_dataP :: nat
  fs_infomask :: "16 word"
  fs_bits :: "byte list"
  fs_data :: "byte list"

text \<open>Lines 128 to 135 of \<open>fill_val\<close>: move to the next bit of the bitmap.\<close>

definition fill_val_next_bit :: "fill_state \<Rightarrow> error + fill_state" where
  "fill_val_next_bit st =
     (if fs_bitmask st \<noteq> HIGHBIT then Inr (st\<lparr>fs_bitmask := fs_bitmask st * 2\<rparr>)
      else
        (case fs_bitP st of
           None \<Rightarrow> Inl NullPointerDereference
         | Some p \<Rightarrow>
             Inr (st\<lparr>fs_bitP := Some (p + 1),
                      fs_bits := poke (fs_bits st) (p + 1) 0,
                      fs_bitmask := 1\<rparr>)))"

text \<open>Lines 150 to 227 of \<open>fill_val\<close>: write the value and advance the data cursor.\<close>

definition fill_val_data :: "Form_pg_attribute \<Rightarrow> fill_state \<Rightarrow> Datum \<Rightarrow> error + fill_state" where
  "fill_val_data att st datum =
     (if attbyval att then
        (let data = att_align_nominal (fs_dataP st) (attalign att) in
         case store_att_byval datum (attlen att) of
           Inl e \<Rightarrow> Inl e
         | Inr bs \<Rightarrow>
             Inr (st\<lparr>fs_data := mem_write (fs_data st) data bs,
                      fs_dataP := data + nat (attlen att)\<rparr>))
      else if attlen att = -1 then
        (let val = DatumGetPointer datum;
             st1 = st\<lparr>fs_infomask := fs_infomask st OR HEAP_HASVARWIDTH\<rparr>
         in
         if VARATT_IS_EXTERNAL val then
           (if VARATT_IS_EXTERNAL_EXPANDED val then
              (let eoh = DatumGetEOHP datum;
                   data = att_align_nominal (fs_dataP st1) (attalign att);
                   data_length = EOH_get_flat_size eoh
               in Inr (st1\<lparr>fs_data := mem_write (fs_data st1) data (EOH_flatten_into eoh data_length),
                           fs_dataP := data + data_length\<rparr>))
            else
              (let st2 = st1\<lparr>fs_infomask := fs_infomask st1 OR HEAP_HASEXTERNAL\<rparr>;
                   data_length = VARSIZE_EXTERNAL val
               in Inr (st2\<lparr>fs_data := mem_write (fs_data st2) (fs_dataP st2) (mem_read val 0 data_length),
                           fs_dataP := fs_dataP st2 + data_length\<rparr>)))
         else if VARATT_IS_SHORT val then
           (let data_length = VARSIZE_SHORT val
            in Inr (st1\<lparr>fs_data := mem_write (fs_data st1) (fs_dataP st1) (mem_read val 0 data_length),
                        fs_dataP := fs_dataP st1 + data_length\<rparr>))
         else if VARLENA_ATT_IS_PACKABLE att \<and> VARATT_CAN_MAKE_SHORT val then
           (let data_length = VARATT_CONVERTED_SHORT_SIZE val
            in Inr (st1\<lparr>fs_data :=
                          mem_write (fs_data st1) (fs_dataP st1)
                            (SET_VARSIZE_SHORT data_length
                               # mem_read (VARDATA val) 0 (data_length - 1)),
                        fs_dataP := fs_dataP st1 + data_length\<rparr>))
         else
           (let data = att_align_nominal (fs_dataP st1) (attalign att);
                data_length = VARSIZE val
            in Inr (st1\<lparr>fs_data := mem_write (fs_data st1) data (mem_read val 0 data_length),
                        fs_dataP := data + data_length\<rparr>)))
      else if attlen att = -2 then
        (let st1 = st\<lparr>fs_infomask := fs_infomask st OR HEAP_HASVARWIDTH\<rparr>;
             data_length = strlen (DatumGetPointer datum) + 1
         in Inr (st1\<lparr>fs_data := mem_write (fs_data st1) (fs_dataP st1)
                                   (mem_read (DatumGetPointer datum) 0 data_length),
                     fs_dataP := fs_dataP st1 + data_length\<rparr>))
      else
        (let data = att_align_nominal (fs_dataP st) (attalign att);
             data_length = nat (attlen att)
         in Inr (st\<lparr>fs_data := mem_write (fs_data st) data
                                  (mem_read (DatumGetPointer datum) 0 data_length),
                    fs_dataP := data + data_length\<rparr>)))"

text \<open>
  \<open>fill_val\<close>. \<open>bit_given\<close> says that the argument \<open>bit\<close> is not \<open>NULL\<close>; the
  pointer it points to may still be \<open>NULL\<close> (as \<open>expand_tuple\<close> can pass it),
  and storing through it then is a crash.
\<close>

definition fill_val :: "Form_pg_attribute \<Rightarrow> bool \<Rightarrow> fill_state \<Rightarrow> Datum \<Rightarrow> bool \<Rightarrow> error + fill_state" where
  "fill_val att bit_given st datum isnull =
     (if bit_given then
        (case fill_val_next_bit st of
           Inl e \<Rightarrow> Inl e
         | Inr st1 \<Rightarrow>
             if isnull then Inr (st1\<lparr>fs_infomask := fs_infomask st1 OR HEAP_HASNULL\<rparr>)
             else
               (case fs_bitP st1 of
                  None \<Rightarrow> Inl NullPointerDereference
                | Some p \<Rightarrow>
                    fill_val_data att
                      (st1\<lparr>fs_bits := poke (fs_bits st1) p (peek (fs_bits st1) p OR of_int (fs_bitmask st1))\<rparr>)
                      datum))
      else fill_val_data att st datum)"

text \<open>\<open>heap_compute_data_size\<close>: the loop body for a column that is not null.\<close>

definition compute_att_size :: "Form_pg_attribute \<Rightarrow> Datum \<Rightarrow> nat \<Rightarrow> nat" where
  "compute_att_size atti val data_length =
     (if ATT_IS_PACKABLE atti \<and> VARATT_CAN_MAKE_SHORT (DatumGetPointer val) then
        data_length + VARATT_CONVERTED_SHORT_SIZE (DatumGetPointer val)
      else if attlen atti = -1 \<and> VARATT_IS_EXTERNAL_EXPANDED (DatumGetPointer val) then
        att_align_nominal data_length (attalign atti) + EOH_get_flat_size (DatumGetEOHP val)
      else
        att_addlength_datum
          (att_align_datum data_length (attalign atti) (attlen atti) val) (attlen atti) val)"

definition heap_compute_data_size :: "TupleDesc \<Rightarrow> Datum list \<Rightarrow> bool list \<Rightarrow> nat" where
  "heap_compute_data_size tupleDesc values isnull =
     fold (\<lambda>i data_length.
             if isnull ! i then data_length
             else compute_att_size (tuple_att tupleDesc ! i) (values ! i) data_length)
       [0..<natts tupleDesc] 0"

text \<open>
  \<open>heap_fill_tuple\<close>. \<open>data\<close> is the data area, zeroed by the caller, and
  \<open>bitmap\<close> (the argument \<open>bit\<close>) the bitmap area or \<open>NULL\<close>; the result is the state after the loop,
  whose \<open>fs_dataP\<close> is the \<open>data - start\<close> of the final assertion.
\<close>

definition heap_fill_step ::
  "TupleDesc \<Rightarrow> Datum list option \<Rightarrow> bool list option \<Rightarrow> nat \<Rightarrow> error + fill_state \<Rightarrow> error + fill_state" where
  "heap_fill_step tupleDesc values isnull i r =
     (case r of
        Inl e \<Rightarrow> Inl e
      | Inr st \<Rightarrow>
          fill_val (tuple_att tupleDesc ! i) (fs_bitP st \<noteq> None) st
            (case values of Some vs \<Rightarrow> vs ! i | None \<Rightarrow> Scalar 0)
            (case isnull of Some ns \<Rightarrow> ns ! i | None \<Rightarrow> True))"

definition heap_fill_tuple ::
  "TupleDesc \<Rightarrow> Datum list option \<Rightarrow> bool list option \<Rightarrow> byte list \<Rightarrow> 16 word \<Rightarrow>
   byte list option \<Rightarrow> error + fill_state" where
  "heap_fill_tuple tupleDesc values isnull data infomask bitmap =
     fold (heap_fill_step tupleDesc values isnull) [0..<natts tupleDesc]
       (Inr \<lparr>fs_bitP = (case bitmap of Some b \<Rightarrow> Some (-1) | None \<Rightarrow> None),
            fs_bitmask = (case bitmap of Some b \<Rightarrow> HIGHBIT | None \<Rightarrow> 0),
            fs_dataP = 0,
            fs_infomask = infomask AND NOT (HEAP_HASNULL OR HEAP_HASVARWIDTH OR HEAP_HASEXTERNAL),
            fs_bits = (case bitmap of Some b \<Rightarrow> b | None \<Rightarrow> []),
            fs_data = data\<rparr>)"

section \<open>Heap tuples\<close>

text \<open>
  Modelled from the spec: \<open>ItemPointerData\<close> and \<open>ItemPointerSetInvalid\<close>
  (\<^verbatim>\<open>storage/itemptr.h\<close>), the physical location pointer of section 4.6: a
  block number and an offset, invalid when the block number is
  \<open>InvalidBlockNumber\<close> and the offset is \<open>InvalidOffsetNumber\<close>.
\<close>

record ItemPointerData =
  ip_blkid :: nat
  ip_posid :: nat

definition ItemPointerSetInvalid :: ItemPointerData where
  "ItemPointerSetInvalid = \<lparr>ip_blkid = 0xFFFFFFFF, ip_posid = 0\<rparr>"

text \<open>
  \<open>HeapTupleHeaderData\<close>: the fixed fields, and \<open>t_raw\<close>, the bytes of the block
  from \<open>t_bits\<close> on (null bitmap, object id, padding and data). \<open>t_xmin\<close>,
  \<open>t_xmax\<close> and \<open>t_field3\<close> share their storage with the \<open>datum_len_\<close>,
  \<open>datum_typmod\<close> and \<open>datum_typeid\<close> of a composite Datum (a signed typmod
  is read back from \<open>t_xmax\<close> as the unsigned 32-bit word it sits in). The number of
  bytes before \<open>t_bits\<close>, \<open>offsetof(HeapTupleHeaderData, t_bits)\<close>, is a
  parameter \<open>t_bits_off\<close> of every routine that uses it: the structure is
  declared in \<^verbatim>\<open>access/htup_details.h\<close>, which is not among the sources.
\<close>

record HeapTupleHeaderData =
  t_xmin :: nat
  t_xmax :: nat
  t_field3 :: nat
  t_xmin_timestamp :: nat
  t_xmax_timestamp :: nat
  t_ctid :: ItemPointerData
  t_infomask2 :: "16 word"
  t_infomask :: "16 word"
  t_hoff :: "8 word"
  t_shardid :: int
  t_raw :: "byte list"

record HeapTupleData =
  t_len :: nat
  t_self :: ItemPointerData
  t_tableOid :: nat
  t_xc_node_id :: nat
  t_data :: "HeapTupleHeaderData option"

text \<open>
  Modelled from the spec: \<open>HEAP_NATTS_MASK\<close>, \<open>HeapTupleHeaderGetNatts\<close>,
  \<open>HeapTupleHeaderSetNatts\<close>, \<open>BITMAPLEN\<close> and \<open>MaxTupleAttributeNumber\<close>
  (\<^verbatim>\<open>access/htup_details.h\<close>): section 6 of the spec has a packed natts and
  flags field and a bitmap of \<open>ceil(natts/8)\<close> bytes; section 7 has a column
  count bounded by what the field can hold.
\<close>

definition HEAP_NATTS_MASK :: "16 word" where "HEAP_NATTS_MASK = 0x07FF"

definition HeapTupleHeaderGetNatts :: "HeapTupleHeaderData \<Rightarrow> nat" where
  "HeapTupleHeaderGetNatts tup = unat (t_infomask2 tup AND HEAP_NATTS_MASK)"

definition HeapTupleHeaderSetNatts :: "HeapTupleHeaderData \<Rightarrow> nat \<Rightarrow> HeapTupleHeaderData" where
  "HeapTupleHeaderSetNatts tup n =
     tup\<lparr>t_infomask2 := (t_infomask2 tup AND NOT HEAP_NATTS_MASK) OR of_nat n\<rparr>"

definition BITMAPLEN :: "nat \<Rightarrow> nat" where
  "BITMAPLEN n = (n + 7) div 8"

definition MaxTupleAttributeNumber :: nat where
  "MaxTupleAttributeNumber = 1664"

definition InvalidOid :: nat where "InvalidOid = 0"
definition InvalidAttrNumber :: int where "InvalidAttrNumber = 0"

text \<open>
  Modelled from the spec: \<open>InvalidShardID\<close> and the \<open>SetShardFlag\<close> values
  (\<^verbatim>\<open>pgxc/shardmap.h\<close>) that \<open>heap_form_tuple_shard\<close> switches on; the spec leaves
  these product-specific branches out.
\<close>

definition InvalidShardID :: int where "InvalidShardID = -1"

datatype SetShardFlag = SetFlag_NoShard | SetFlag_PlainShard | SetFlag_ToastShard

definition HeapTupleHasNulls :: "HeapTupleData \<Rightarrow> bool" where
  "HeapTupleHasNulls tuple =
     (case t_data tuple of None \<Rightarrow> False | Some td \<Rightarrow> t_infomask td AND HEAP_HASNULL \<noteq> 0)"

definition HeapTupleNoNulls :: "HeapTupleData \<Rightarrow> bool" where
  "HeapTupleNoNulls tuple = (\<not> HeapTupleHasNulls tuple)"

definition HeapTupleHasVarWidth :: "HeapTupleData \<Rightarrow> bool" where
  "HeapTupleHasVarWidth tuple =
     (case t_data tuple of None \<Rightarrow> False | Some td \<Rightarrow> t_infomask td AND HEAP_HASVARWIDTH \<noteq> 0)"

text \<open>
  \<open>heap_form_tuple_shard\<close>. \<open>EvaluateShardId\<close> (\<^verbatim>\<open>pgxc/shardmap.h\<close>) is a
  parameter. The block is \<open>palloc0\<close>'ed: the bitmap area handed to
  \<open>heap_fill_tuple\<close> is the zeroed stretch from \<open>t_bits\<close> to \<open>hoff\<close>, the data
  area the zeroed \<open>data_len\<close> bytes after it.
\<close>

definition heap_form_tuple_shard ::
  "nat \<Rightarrow> (nat \<Rightarrow> bool \<Rightarrow> Datum \<Rightarrow> nat \<Rightarrow> bool \<Rightarrow> Datum \<Rightarrow> nat \<Rightarrow> int) \<Rightarrow>
   TupleDesc \<Rightarrow> Datum list \<Rightarrow> bool list \<Rightarrow> SetShardFlag \<Rightarrow> int \<Rightarrow> int \<Rightarrow> nat \<Rightarrow> int \<Rightarrow>
   error + HeapTupleData" where
  "heap_form_tuple_shard t_bits_off EvaluateShardId tupleDescriptor values isnull
     sflag diskey secdiskey relid sid =
     (let numberOfAttributes = natts tupleDescriptor in
      if numberOfAttributes > MaxTupleAttributeNumber then
        Inl (ereport_ERROR ''ERRCODE_TOO_MANY_COLUMNS'')
      else
        (let hasnull = list_ex (\<lambda>i. isnull ! i) [0..<numberOfAttributes];
             len0 = t_bits_off + (if hasnull then BITMAPLEN numberOfAttributes else 0)
                      + (if tdhasoid tupleDescriptor then 4 else 0);
             hoff = MAXALIGN len0;
             data_len = heap_compute_data_size tupleDescriptor values isnull;
             len = hoff + data_len;
             area = replicate (hoff - t_bits_off) 0
         in
         case heap_fill_tuple tupleDescriptor (Some values) (Some isnull)
                (replicate data_len 0)
                (if tdhasoid tupleDescriptor then HEAP_HASOID else 0)
                (if hasnull then Some area else None) of
           Inl e \<Rightarrow> Inl e
         | Inr st \<Rightarrow>
             (let td = HeapTupleHeaderSetNatts
                         \<lparr>t_xmin = len, t_xmax = nat (tdtypmod tupleDescriptor mod 2 ^ 32),
                          t_field3 = tdtypeid tupleDescriptor,
                          t_xmin_timestamp = 0, t_xmax_timestamp = 0,
                          t_ctid = ItemPointerSetInvalid,
                          t_infomask2 = 0,
                          t_infomask = fs_infomask st,
                          t_hoff = of_nat hoff,
                          t_shardid = 0,
                          t_raw = (if hasnull then fs_bits st else area) @ fs_data st\<rparr>
                         numberOfAttributes;
                  tuple = \<lparr>t_len = len, t_self = ItemPointerSetInvalid,
                           t_tableOid = InvalidOid, t_xc_node_id = 0, t_data = None\<rparr>
              in
              case sflag of
                SetFlag_PlainShard \<Rightarrow>
                  if diskey < 1 \<or> diskey > int (natts tupleDescriptor) then
                    Inl (elog_ERROR ''AttrNum[%d] of distribute key is invalid, '' [diskey])
                  else if secdiskey > int (natts tupleDescriptor) then
                    Inl (elog_ERROR ''AttrNum[%d] of second distribute key is invalid, '' [secdiskey])
                  else
                    (let typeOfDistCol = atttypid (attrs tupleDescriptor ! nat (diskey - 1));
                         val = values ! nat (diskey - 1);
                         isdisnull = isnull ! nat (diskey - 1);
                         sectypeOfDistCol =
                           (if secdiskey \<noteq> InvalidAttrNumber
                            then atttypid (attrs tupleDescriptor ! nat (secdiskey - 1))
                            else InvalidOid);
                         secvalue =
                           (if secdiskey \<noteq> InvalidAttrNumber then values ! nat (secdiskey - 1)
                            else Scalar 0);
                         secisnull =
                           (if secdiskey \<noteq> InvalidAttrNumber then isnull ! nat (secdiskey - 1)
                            else True);
                         shardId = EvaluateShardId typeOfDistCol isdisnull val
                                     sectypeOfDistCol secisnull secvalue relid
                     in Inr (tuple\<lparr>t_data := Some (td\<lparr>t_shardid := shardId\<rparr>)\<rparr>))
              | SetFlag_ToastShard \<Rightarrow> Inr (tuple\<lparr>t_data := Some (td\<lparr>t_shardid := sid\<rparr>)\<rparr>)
              | SetFlag_NoShard \<Rightarrow>
                  Inr (tuple\<lparr>t_data := Some (td\<lparr>t_shardid := InvalidShardID\<rparr>)\<rparr>))))"

text \<open>
  \<open>heap_form_tuple\<close>, as the comment above \<open>heap_form_tuple_shard\<close> writes it
  out: the call with \<open>SetFlag_NoShard\<close>.
\<close>

definition heap_form_tuple ::
  "nat \<Rightarrow> (nat \<Rightarrow> bool \<Rightarrow> Datum \<Rightarrow> nat \<Rightarrow> bool \<Rightarrow> Datum \<Rightarrow> nat \<Rightarrow> int) \<Rightarrow>
   TupleDesc \<Rightarrow> Datum list \<Rightarrow> bool list \<Rightarrow> error + HeapTupleData" where
  "heap_form_tuple t_bits_off EvaluateShardId tupleDescriptor values isnull =
     heap_form_tuple_shard t_bits_off EvaluateShardId tupleDescriptor values isnull
       SetFlag_NoShard InvalidAttrNumber InvalidAttrNumber InvalidOid InvalidShardID"

subsection \<open>Copying\<close>

text \<open>
  \<open>memcpy\<close> of the first \<open>n\<close> bytes of a tuple block: the fixed header fields
  (every tuple is at least as long as its fixed header) and the bytes from
  \<open>t_bits\<close> up to \<open>n\<close>.
\<close>

definition memcpy_tuple :: "nat \<Rightarrow> HeapTupleHeaderData \<Rightarrow> nat \<Rightarrow> HeapTupleHeaderData" where
  "memcpy_tuple t_bits_off src n = src\<lparr>t_raw := mem_read (t_raw src) 0 (n - t_bits_off)\<rparr>"

definition heap_copytuple :: "nat \<Rightarrow> HeapTupleData option \<Rightarrow> HeapTupleData option" where
  "heap_copytuple t_bits_off tuple =
     (case tuple of
        None \<Rightarrow> None
      | Some t \<Rightarrow>
          (case t_data t of
             None \<Rightarrow> None
           | Some td \<Rightarrow>
               Some \<lparr>t_len = t_len t, t_self = t_self t, t_tableOid = t_tableOid t,
                     t_xc_node_id = t_xc_node_id t,
                     t_data = Some (memcpy_tuple t_bits_off td (t_len t))\<rparr>))"

text \<open>
  \<open>heap_copytuple_with_tuple\<close>: the copy goes into the caller's \<open>dest\<close>, whose
  new contents are returned.
\<close>

definition heap_copytuple_with_tuple ::
  "nat \<Rightarrow> HeapTupleData option \<Rightarrow> HeapTupleData \<Rightarrow> HeapTupleData" where
  "heap_copytuple_with_tuple t_bits_off src dest =
     (case src of
        None \<Rightarrow> dest\<lparr>t_data := None\<rparr>
      | Some s \<Rightarrow>
          (case t_data s of
             None \<Rightarrow> dest\<lparr>t_data := None\<rparr>
           | Some td \<Rightarrow>
               dest\<lparr>t_len := t_len s, t_self := t_self s, t_tableOid := t_tableOid s,
                     t_xc_node_id := t_xc_node_id s,
                     t_data := Some (memcpy_tuple t_bits_off td (t_len s))\<rparr>))"


section \<open>Reading a tuple\<close>

text \<open>
  Modelled from the spec: \<open>att_isnull\<close> (\<^verbatim>\<open>access/tupmacs.h\<close>). Section 6 of
  the spec: the bit index is the attribute index and bits fill low to high
  within each byte. The polarity is the one the sources use: \<open>fill_val\<close> sets
  the bit of a column that is not null, and \<open>nocachegetattr\<close> looks for nulls
  among the clear bits.
\<close>

definition att_isnull :: "nat \<Rightarrow> byte list \<Rightarrow> bool" where
  "att_isnull ATT BITS = (\<not> bit (byte_at BITS (ATT div 8)) (ATT mod 8))"

definition fetchatt :: "Form_pg_attribute \<Rightarrow> byte list \<Rightarrow> Datum" where
  "fetchatt A T = fetch_att T (attbyval A) (attlen A)"

text \<open>\<open>(char *) tup + tup->t_hoff\<close>: the data area of a tuple.\<close>

definition tuple_data :: "nat \<Rightarrow> HeapTupleHeaderData \<Rightarrow> byte list" where
  "tuple_data t_bits_off tup = drop (unat (t_hoff tup) - t_bits_off) (t_raw tup)"

text \<open>
  \<open>getmissingattr\<close>. \<open>tupleDesc->constr->missing\<close> is \<open>constr_missing\<close>; the two
  assertions guard a load through \<open>NULL\<close>.
\<close>

definition getmissingattr :: "TupleDesc \<Rightarrow> int \<Rightarrow> error + (Datum \<times> bool)" where
  "getmissingattr tupleDesc attnum =
     (let att = attrs tupleDesc ! nat (attnum - 1) in
      if atthasmissing att \<and> \<not> attisdropped att then
        (case constr_missing tupleDesc of
           None \<Rightarrow> Inl NullPointerDereference
         | Some missing \<Rightarrow>
             (let attrmiss = missing ! nat (attnum - 1) in
              if ammissingPresent attrmiss then Inr (ammissing attrmiss, False)
              else Inr (Scalar 0, True)))
      else Inr (Scalar 0, True))"

text \<open>
  The state of the decoding loop of \<open>heap_deform_tuple\<close> and
  \<open>slot_deform_tuple\<close>: the output arrays, the \<open>attcacheoff\<close> array of \<open>att\<close>,
  \<open>off\<close> and \<open>slow\<close>.
\<close>

record deform_state =
  ds_values :: "Datum list"
  ds_isnull :: "bool list"
  ds_cache :: "int list"
  ds_off :: nat
  ds_slow :: bool

text \<open>
  The body of that loop, which the two routines share word for word (lines
  1175 to 1221 and 1292 to 1338).
\<close>

definition deform_att ::
  "Form_pg_attribute list \<Rightarrow> bool \<Rightarrow> byte list \<Rightarrow> byte list \<Rightarrow> nat \<Rightarrow> deform_state \<Rightarrow> deform_state" where
  "deform_att att hasnulls bp tp attnum st =
     (let thisatt = att ! attnum in
      if hasnulls \<and> att_isnull attnum bp then
        st\<lparr>ds_values := (ds_values st)[attnum := Scalar 0],
           ds_isnull := (ds_isnull st)[attnum := True],
           ds_slow := True\<rparr>
      else
        (let st1 = st\<lparr>ds_isnull := (ds_isnull st)[attnum := False]\<rparr>;
             st2 =
               (if \<not> ds_slow st1 \<and> 0 \<le> ds_cache st1 ! attnum then
                  st1\<lparr>ds_off := nat (ds_cache st1 ! attnum)\<rparr>
                else if attlen thisatt = -1 then
                  (if \<not> ds_slow st1
                      \<and> ds_off st1 = att_align_nominal (ds_off st1) (attalign thisatt) then
                     st1\<lparr>ds_cache := (ds_cache st1)[attnum := int (ds_off st1)]\<rparr>
                   else
                     st1\<lparr>ds_off := att_align_pointer (ds_off st1) (attalign thisatt) (-1)
                                       (drop (ds_off st1) tp),
                         ds_slow := True\<rparr>)
                else
                  (let off = att_align_nominal (ds_off st1) (attalign thisatt) in
                   if \<not> ds_slow st1 then
                     st1\<lparr>ds_off := off, ds_cache := (ds_cache st1)[attnum := int off]\<rparr>
                   else st1\<lparr>ds_off := off\<rparr>));
             st3 = st2\<lparr>ds_values :=
                         (ds_values st2)[attnum := fetchatt thisatt (drop (ds_off st2) tp)]\<rparr>;
             st4 = st3\<lparr>ds_off :=
                         att_addlength_pointer (ds_off st3) (attlen thisatt) (drop (ds_off st3) tp)\<rparr>
         in if attlen thisatt \<le> 0 then st4\<lparr>ds_slow := True\<rparr> else st4))"

text \<open>The second loop of \<open>heap_deform_tuple\<close>: columns the tuple does not have.\<close>

definition deform_missing ::
  "TupleDesc \<Rightarrow> nat \<Rightarrow> error + deform_state \<Rightarrow> error + deform_state" where
  "deform_missing tupleDesc attnum r =
     (case r of
        Inl e \<Rightarrow> Inl e
      | Inr st \<Rightarrow>
          (case getmissingattr tupleDesc (int attnum + 1) of
             Inl e \<Rightarrow> Inl e
           | Inr (v, n) \<Rightarrow>
               Inr (st\<lparr>ds_values := (ds_values st)[attnum := v],
                        ds_isnull := (ds_isnull st)[attnum := n]\<rparr>)))"

text \<open>
  \<open>heap_deform_tuple\<close>. \<open>values\<close> and \<open>isnull\<close> are the caller's arrays,
  \<open>cache\<close> the \<open>attcacheoff\<close> values on entry; the result holds the arrays and
  the \<open>attcacheoff\<close> values on return.
\<close>

definition heap_deform_tuple ::
  "nat \<Rightarrow> HeapTupleData \<Rightarrow> TupleDesc \<Rightarrow> Datum list \<Rightarrow> bool list \<Rightarrow> int list \<Rightarrow>
   error + (Datum list \<times> bool list \<times> int list)" where
  "heap_deform_tuple t_bits_off tuple tupleDesc values isnull cache =
     (case t_data tuple of
        None \<Rightarrow> Inl NullPointerDereference
      | Some tup \<Rightarrow>
          (let hasnulls = HeapTupleHasNulls tuple;
               att = tuple_att tupleDesc;
               tdesc_natts = natts tupleDesc;
               natts1 = min (HeapTupleHeaderGetNatts tup) tdesc_natts;
               tp = tuple_data t_bits_off tup;
               bp = t_raw tup;
               st = fold (deform_att att hasnulls bp tp) [0..<natts1]
                      \<lparr>ds_values = values, ds_isnull = isnull, ds_cache = cache,
                       ds_off = 0, ds_slow = False\<rparr>
           in
           case fold (deform_missing tupleDesc) [natts1..<tdesc_natts] (Inr st) of
             Inl e \<Rightarrow> Inl e
           | Inr st1 \<Rightarrow> Inr (ds_values st1, ds_isnull st1, ds_cache st1)))"

subsection \<open>The slot\<close>

text \<open>
  Modelled from the spec: the \<open>DataRow\<close> message of a slot (\<^verbatim>\<open>pgxc/execRemote.h\<close>)
  and the input functions that convert its fields are not among the sources.
  Section 4.5 of the spec: the alternate row source length-prefixes each field
  and parses it through the column's input conversion, full materialization
  only. The message is represented by the column count it declares and, for
  each field, \<open>None\<close> for a null or the Datum its input conversion returns.
\<close>

record RemoteDataRow =
  drow_col_count :: nat
  drow_fields :: "Datum option list"

record TupleTableSlot =
  tts_tuple :: "HeapTupleData option"
  tts_is_minhdr :: bool
  tts_tupleDescriptor :: TupleDesc
  tts_values :: "Datum list"
  tts_isnull :: "bool list"
  tts_nvalid :: nat
  tts_off :: nat
  tts_slow :: bool
  tts_datarow :: "RemoteDataRow option"

definition slot_deform_tuple ::
  "nat \<Rightarrow> TupleTableSlot \<Rightarrow> nat \<Rightarrow> int list \<Rightarrow> error + (TupleTableSlot \<times> int list)" where
  "slot_deform_tuple t_bits_off slot n cache =
     (case tts_tuple slot of
        None \<Rightarrow> Inl NullPointerDereference
      | Some tuple \<Rightarrow>
          (case t_data tuple of
             None \<Rightarrow> Inl NullPointerDereference
           | Some tup \<Rightarrow>
               (let tupleDesc = tts_tupleDescriptor slot;
                    hasnulls = HeapTupleHasNulls tuple;
                    att = tuple_att tupleDesc;
                    attnum = tts_nvalid slot;
                    off = (if attnum = 0 then 0 else tts_off slot);
                    slow = (if attnum = 0 then False else tts_slow slot);
                    tp = tuple_data t_bits_off tup;
                    bp = t_raw tup;
                    st = fold (deform_att att hasnulls bp tp) [attnum..<n]
                           \<lparr>ds_values = tts_values slot, ds_isnull = tts_isnull slot,
                            ds_cache = cache, ds_off = off, ds_slow = slow\<rparr>
                in Inr (slot\<lparr>tts_values := ds_values st, tts_isnull := ds_isnull st,
                             tts_nvalid := max attnum n, tts_off := ds_off st,
                             tts_slow := ds_slow st\<rparr>,
                        ds_cache st))))"

definition slot_deform_datarow :: "TupleTableSlot \<Rightarrow> error + TupleTableSlot" where
  "slot_deform_datarow slot =
     (let n = natts (tts_tupleDescriptor slot) in
      if tts_nvalid slot = n then Inr slot
      else
        (case tts_datarow slot of
           None \<Rightarrow> Inl NullPointerDereference
         | Some drow \<Rightarrow>
             if drow_col_count drow \<noteq> n then Inl (ereport_ERROR ''ERRCODE_DATA_CORRUPTED'')
             else
               Inr (slot\<lparr>tts_values :=
                            map (\<lambda>i. case drow_fields drow ! i of None \<Rightarrow> Scalar 0 | Some d \<Rightarrow> d)
                              [0..<n],
                          tts_isnull := map (\<lambda>i. drow_fields drow ! i = None) [0..<n],
                          tts_nvalid := n\<rparr>)))"

text \<open>\<open>slot_getmissingattrs\<close>: entries \<open>startAttNum\<close> up to \<open>lastAttNum\<close> of the slot's arrays.\<close>

definition slot_getmissingattrs :: "TupleTableSlot \<Rightarrow> nat \<Rightarrow> nat \<Rightarrow> TupleTableSlot" where
  "slot_getmissingattrs slot startAttNum lastAttNum =
     (case constr_missing (tts_tupleDescriptor slot) of
        None \<Rightarrow>
          fold (\<lambda>missattnum s.
                  s\<lparr>tts_values := (tts_values s)[missattnum := Scalar 0],
                    tts_isnull := (tts_isnull s)[missattnum := True]\<rparr>)
            [startAttNum..<lastAttNum] slot
      | Some attrmiss \<Rightarrow>
          fold (\<lambda>missattnum s.
                  s\<lparr>tts_values := (tts_values s)[missattnum := ammissing (attrmiss ! missattnum)],
                    tts_isnull := (tts_isnull s)[missattnum :=
                                     \<not> ammissingPresent (attrmiss ! missattnum)]\<rparr>)
            [startAttNum..<lastAttNum] slot)"

definition slot_getsomeattrs ::
  "nat \<Rightarrow> TupleTableSlot \<Rightarrow> int \<Rightarrow> int list \<Rightarrow> error + (TupleTableSlot \<times> int list)" where
  "slot_getsomeattrs t_bits_off slot attnum cache =
     (if attnum \<le> int (tts_nvalid slot) then Inr (slot, cache)
      else if tts_datarow slot \<noteq> None then
        (case slot_deform_datarow slot of Inl e \<Rightarrow> Inl e | Inr s \<Rightarrow> Inr (s, cache))
      else if attnum \<le> 0 \<or> attnum > int (natts (tts_tupleDescriptor slot)) then
        Inl (elog_ERROR ''invalid attribute number %d'' [attnum])
      else
        (case tts_tuple slot of
           None \<Rightarrow> Inl (elog_ERROR ''cannot extract attribute from empty tuple slot'' [])
         | Some tuple \<Rightarrow>
             (case t_data tuple of
                None \<Rightarrow> Inl NullPointerDereference
              | Some tup \<Rightarrow>
                  (let attno = min (HeapTupleHeaderGetNatts tup) (nat attnum) in
                   case slot_deform_tuple t_bits_off slot attno cache of
                     Inl e \<Rightarrow> Inl e
                   | Inr (s, cache1) \<Rightarrow>
                       (let s1 = (if attno < nat attnum
                                  then slot_getmissingattrs s attno (nat attnum) else s)
                        in Inr (s1\<lparr>tts_nvalid := nat attnum\<rparr>, cache1))))))"

definition slot_getallattrs ::
  "nat \<Rightarrow> TupleTableSlot \<Rightarrow> int list \<Rightarrow> error + (TupleTableSlot \<times> int list)" where
  "slot_getallattrs t_bits_off slot cache =
     (let tdesc_natts = natts (tts_tupleDescriptor slot) in
      if tts_nvalid slot = tdesc_natts then Inr (slot, cache)
      else if tts_datarow slot \<noteq> None then
        (case slot_deform_datarow slot of Inl e \<Rightarrow> Inl e | Inr s \<Rightarrow> Inr (s, cache))
      else
        (case tts_tuple slot of
           None \<Rightarrow> Inl (elog_ERROR ''cannot extract attribute from empty tuple slot'' [])
         | Some tuple \<Rightarrow>
             (case t_data tuple of
                None \<Rightarrow> Inl NullPointerDereference
              | Some tup \<Rightarrow>
                  (let attnum = min (HeapTupleHeaderGetNatts tup) tdesc_natts in
                   case slot_deform_tuple t_bits_off slot attnum cache of
                     Inl e \<Rightarrow> Inl e
                   | Inr (s, cache1) \<Rightarrow>
                       (let s1 = (if attnum < tdesc_natts
                                  then slot_getmissingattrs s attnum tdesc_natts else s)
                        in Inr (s1\<lparr>tts_nvalid := tdesc_natts\<rparr>, cache1))))))"

subsection \<open>System attributes\<close>

text \<open>
  Modelled from the spec: the system attribute numbers of \<^verbatim>\<open>access/sysattr.h\<close>,
  the pseudo-columns of section 4.5 (row identity, object id, creating and
  deleting transaction markers, owning table), each a negative number.
\<close>

definition SelfItemPointerAttributeNumber :: int where "SelfItemPointerAttributeNumber = -1"
definition ObjectIdAttributeNumber :: int where "ObjectIdAttributeNumber = -2"
definition MinTransactionIdAttributeNumber :: int where "MinTransactionIdAttributeNumber = -3"
definition MinCommandIdAttributeNumber :: int where "MinCommandIdAttributeNumber = -4"
definition MaxTransactionIdAttributeNumber :: int where "MaxTransactionIdAttributeNumber = -5"
definition MaxCommandIdAttributeNumber :: int where "MaxCommandIdAttributeNumber = -6"
definition TableOidAttributeNumber :: int where "TableOidAttributeNumber = -7"
definition XC_NodeIdAttributeNumber :: int where "XC_NodeIdAttributeNumber = -8"
definition ShardIdAttributeNumber :: int where "ShardIdAttributeNumber = -9"
definition XmaxGTSIdAttributeNumber :: int where "XmaxGTSIdAttributeNumber = -10"
definition XminGTSAttributeNumber :: int where "XminGTSAttributeNumber = -11"

text \<open>
  Modelled from the spec: \<open>HeapTupleHeaderGetOid\<close> and \<open>HeapTupleHeaderSetOid\<close>
  (\<^verbatim>\<open>access/htup_details.h\<close>), the optional 4-byte object id of section 6: it
  sits in the four bytes before the data area when the tuple has one.
\<close>

definition HeapTupleHeaderGetOid :: "nat \<Rightarrow> HeapTupleHeaderData \<Rightarrow> nat" where
  "HeapTupleHeaderGetOid t_bits_off tup =
     (if t_infomask tup AND HEAP_HASOID \<noteq> 0
      then be_value (mem_read (t_raw tup) (unat (t_hoff tup) - t_bits_off - 4) 4)
      else InvalidOid)"

definition HeapTupleHeaderSetOid :: "nat \<Rightarrow> HeapTupleHeaderData \<Rightarrow> nat \<Rightarrow> HeapTupleHeaderData" where
  "HeapTupleHeaderSetOid t_bits_off tup oid =
     tup\<lparr>t_raw := mem_write (t_raw tup) (unat (t_hoff tup) - t_bits_off - 4) (be_bytes 4 oid)\<rparr>"

definition heap_getsysattr ::
  "nat \<Rightarrow> HeapTupleData \<Rightarrow> int \<Rightarrow> error + (Datum \<times> bool)" where
  "heap_getsysattr t_bits_off tup attnum =
     (case t_data tup of
        None \<Rightarrow> Inl NullPointerDereference
      | Some td \<Rightarrow>
          if attnum = SelfItemPointerAttributeNumber then
            Inr (Pointer (be_bytes 4 (ip_blkid (t_self tup)) @ be_bytes 2 (ip_posid (t_self tup))), False)
          else if attnum = ObjectIdAttributeNumber then
            Inr (Scalar (of_nat (HeapTupleHeaderGetOid t_bits_off td)), False)
          else if attnum = MinTransactionIdAttributeNumber then Inr (Scalar (of_nat (t_xmin td)), False)
          else if attnum = MaxTransactionIdAttributeNumber then Inr (Scalar (of_nat (t_xmax td)), False)
          else if attnum = MinCommandIdAttributeNumber \<or> attnum = MaxCommandIdAttributeNumber then
            Inr (Scalar (of_nat (t_field3 td)), False)
          else if attnum = TableOidAttributeNumber then Inr (Scalar (of_nat (t_tableOid tup)), False)
          else if attnum = XC_NodeIdAttributeNumber then Inr (Scalar (of_nat (t_xc_node_id tup)), False)
          else if attnum = ShardIdAttributeNumber then
            Inr (Scalar (of_int (t_shardid td mod 2 ^ 32)), False)
          else if attnum = XmaxGTSIdAttributeNumber then
            Inr (Scalar (of_nat (t_xmax_timestamp td)), False)
          else if attnum = XminGTSAttributeNumber then
            Inr (Scalar (of_nat (t_xmin_timestamp td)), False)
          else Inl (elog_ERROR ''invalid attnum: %d'' [attnum]))"

definition heap_attisnull ::
  "HeapTupleData \<Rightarrow> int \<Rightarrow> TupleDesc option \<Rightarrow> error + bool" where
  "heap_attisnull tup attnum tupleDesc =
     (case t_data tup of
        None \<Rightarrow> Inl NullPointerDereference
      | Some td \<Rightarrow>
          if attnum > int (HeapTupleHeaderGetNatts td) then
            (case tupleDesc of
               None \<Rightarrow> Inr True
             | Some desc \<Rightarrow>
                 if atthasmissing (attrs desc ! nat (attnum - 1)) then Inr False else Inr True)
          else if attnum > 0 then
            (if HeapTupleNoNulls tup then Inr False
             else Inr (att_isnull (nat (attnum - 1)) (t_raw td)))
          else if attnum = TableOidAttributeNumber \<or> attnum = SelfItemPointerAttributeNumber
                  \<or> attnum = ObjectIdAttributeNumber \<or> attnum = MinTransactionIdAttributeNumber
                  \<or> attnum = MinCommandIdAttributeNumber \<or> attnum = MaxTransactionIdAttributeNumber
                  \<or> attnum = MaxCommandIdAttributeNumber \<or> attnum = XC_NodeIdAttributeNumber
          then Inr False
          else Inl (elog_ERROR ''invalid attnum: %d'' [attnum]))"

text \<open>
  \<open>slot_getattr\<close>: the Datum, \<open>*isnull\<close>, and the slot and the \<open>attcacheoff\<close>
  array as the call leaves them.
\<close>

definition slot_getattr ::
  "nat \<Rightarrow> TupleTableSlot \<Rightarrow> int \<Rightarrow> int list \<Rightarrow>
   error + (Datum \<times> bool \<times> TupleTableSlot \<times> int list)" where
  "slot_getattr t_bits_off slot attnum cache =
     (let tupleDesc = tts_tupleDescriptor slot in
      if attnum \<le> 0 then
        (case tts_tuple slot of
           None \<Rightarrow> Inl (elog_ERROR ''cannot extract system attribute from virtual tuple'' [])
         | Some tuple \<Rightarrow>
             if tts_is_minhdr slot then
               Inl (elog_ERROR ''cannot extract system attribute from minimal tuple'' [])
             else
               (case heap_getsysattr t_bits_off tuple attnum of
                  Inl e \<Rightarrow> Inl e
                | Inr (d, n) \<Rightarrow> Inr (d, n, slot, cache)))
      else if attnum \<le> int (tts_nvalid slot) then
        Inr (tts_values slot ! nat (attnum - 1), tts_isnull slot ! nat (attnum - 1), slot, cache)
      else if attnum > int (natts tupleDesc) then Inr (Scalar 0, True, slot, cache)
      else if tts_datarow slot \<noteq> None then
        (case slot_deform_datarow slot of
           Inl e \<Rightarrow> Inl e
         | Inr s \<Rightarrow> Inr (tts_values s ! nat (attnum - 1), tts_isnull s ! nat (attnum - 1), s, cache))
      else
        (case tts_tuple slot of
           None \<Rightarrow> Inl (elog_ERROR ''cannot extract attribute from empty tuple slot'' [])
         | Some tuple \<Rightarrow>
             (case t_data tuple of
                None \<Rightarrow> Inl NullPointerDereference
              | Some tup \<Rightarrow>
                  if attnum > int (HeapTupleHeaderGetNatts tup) then
                    (case getmissingattr tupleDesc attnum of
                       Inl e \<Rightarrow> Inl e
                     | Inr (d, n) \<Rightarrow> Inr (d, n, slot, cache))
                  else if HeapTupleHasNulls tuple \<and> att_isnull (nat (attnum - 1)) (t_raw tup) then
                    Inr (Scalar 0, True, slot, cache)
                  else if attisdropped (attrs tupleDesc ! nat (attnum - 1)) then
                    Inr (Scalar 0, True, slot, cache)
                  else
                    (case slot_deform_tuple t_bits_off slot (nat attnum) cache of
                       Inl e \<Rightarrow> Inl e
                     | Inr (s, cache1) \<Rightarrow>
                         Inr (tts_values s ! nat (attnum - 1), tts_isnull s ! nat (attnum - 1),
                              s, cache1)))))"

definition slot_attisnull :: "TupleTableSlot \<Rightarrow> int \<Rightarrow> error + (bool \<times> TupleTableSlot)" where
  "slot_attisnull slot attnum =
     (let tupleDesc = tts_tupleDescriptor slot in
      if attnum \<le> 0 then
        (case tts_tuple slot of
           None \<Rightarrow> Inl (elog_ERROR ''cannot extract system attribute from virtual tuple'' [])
         | Some tuple \<Rightarrow>
             if tts_is_minhdr slot then
               Inl (elog_ERROR ''cannot extract system attribute from minimal tuple'' [])
             else
               (case heap_attisnull tuple attnum (Some tupleDesc) of
                  Inl e \<Rightarrow> Inl e
                | Inr b \<Rightarrow> Inr (b, slot)))
      else if attnum \<le> int (tts_nvalid slot) then Inr (tts_isnull slot ! nat (attnum - 1), slot)
      else if attnum > int (natts tupleDesc) then Inr (True, slot)
      else if tts_datarow slot \<noteq> None then
        (case slot_deform_datarow slot of
           Inl e \<Rightarrow> Inl e
         | Inr s \<Rightarrow> Inr (tts_isnull s ! nat (attnum - 1), s))
      else
        (case tts_tuple slot of
           None \<Rightarrow> Inl (elog_ERROR ''cannot extract attribute from empty tuple slot'' [])
         | Some tuple \<Rightarrow>
             (case heap_attisnull tuple attnum (Some tupleDesc) of
                Inl e \<Rightarrow> Inl e
              | Inr b \<Rightarrow> Inr (b, slot))))"

subsection \<open>\<open>nocachegetattr\<close>\<close>

text \<open>The loop \<open>while (j < natts && att[j]->attcacheoff > 0) j++\<close>.\<close>

function nocache_skip :: "int list \<Rightarrow> nat \<Rightarrow> nat \<Rightarrow> nat" where
  "nocache_skip cache n j = (if j < n \<and> 0 < cache ! j then nocache_skip cache n (Suc j) else j)"
  by pat_completeness auto
termination
  by (relation "measure (\<lambda>(cache, n, j). n - j)") auto

text \<open>The loop that initializes the cached offsets of the leading fixed-width columns.\<close>

function nocache_init ::
  "Form_pg_attribute list \<Rightarrow> nat \<Rightarrow> nat \<Rightarrow> int \<Rightarrow> int list \<Rightarrow> int list" where
  "nocache_init att n j off cache =
     (if j < n then
        (if attlen (att ! j) \<le> 0 then cache
         else
           (let off1 = int (att_align_nominal (nat off) (attalign (att ! j)))
            in nocache_init att n (Suc j) (off1 + attlen (att ! j)) (cache[j := off1])))
      else cache)"
  by pat_completeness auto
termination
  by (relation "measure (\<lambda>(att, n, j, off, cache). n - j)") auto

text \<open>
  The careful walk \<open>for (i = 0;; i++)\<close>, which leaves at the target column.
  A null target makes the source run past the attribute array; the model
  ends with \<open>ArrayOverrun\<close> there.
\<close>

function nocache_walk ::
  "Form_pg_attribute list \<Rightarrow> bool \<Rightarrow> byte list \<Rightarrow> byte list \<Rightarrow> nat \<Rightarrow> nat \<Rightarrow> nat \<Rightarrow> bool \<Rightarrow>
   int list \<Rightarrow> error + (nat \<times> int list)" where
  "nocache_walk att hasnulls bp tp attnum i off usecache cache =
     (if length att \<le> i then Inl ArrayOverrun
      else if hasnulls \<and> att_isnull i bp then
        nocache_walk att hasnulls bp tp attnum (Suc i) off False cache
      else
        (let (off1, usecache1, cache1) =
               (if usecache \<and> 0 \<le> cache ! i then (nat (cache ! i), usecache, cache)
                else if attlen (att ! i) = -1 then
                  (if usecache \<and> off = att_align_nominal off (attalign (att ! i)) then
                     (off, usecache, cache[i := int off])
                   else
                     (att_align_pointer off (attalign (att ! i)) (-1) (drop off tp), False, cache))
                else
                  (let off2 = att_align_nominal off (attalign (att ! i)) in
                   (off2, usecache, if usecache then cache[i := int off2] else cache)))
         in
         if i = attnum then Inr (off1, cache1)
         else
           nocache_walk att hasnulls bp tp attnum (Suc i)
             (att_addlength_pointer off1 (attlen (att ! i)) (drop off1 tp))
             (usecache1 \<and> \<not> attlen (att ! i) \<le> 0) cache1))"
  by pat_completeness auto
termination
  by (relation "measure (\<lambda>(att, hasnulls, bp, tp, attnum, i, off, usecache, cache). length att - i)")
     auto

text \<open>
  \<open>nocachegetattr\<close>, for a column number \<open>attnum\<close> counted from 1. The result is
  the Datum and the \<open>attcacheoff\<close> array on return. A column number outside
  the attribute array is an index off the array.
\<close>

definition nocachegetattr ::
  "nat \<Rightarrow> HeapTupleData \<Rightarrow> int \<Rightarrow> TupleDesc \<Rightarrow> int list \<Rightarrow> error + (Datum \<times> int list)" where
  "nocachegetattr t_bits_off tuple attnum1 tupleDesc cache =
     (case t_data tuple of
        None \<Rightarrow> Inl NullPointerDereference
      | Some tup \<Rightarrow>
          (let att = tuple_att tupleDesc;
               bp = t_raw tup;
               attnum = nat (attnum1 - 1)
           in
           if attnum1 < 1 \<or> length att \<le> attnum then Inl ArrayOverrun
           else
             (let slow0 =
                    (if \<not> HeapTupleNoNulls tuple then
                       (let byte = attnum div 8; finalbit = attnum mod 8 in
                        if NOT (byte_at bp byte) AND (push_bit finalbit 1 - 1) \<noteq> 0 then True
                        else list_ex (\<lambda>i. byte_at bp i \<noteq> 0xFF) [0..<byte])
                     else False);
                  tp = tuple_data t_bits_off tup
              in
              if \<not> slow0 \<and> 0 \<le> cache ! attnum then
                Inr (fetchatt (att ! attnum) (drop (nat (cache ! attnum)) tp), cache)
              else
                (let slow =
                       (if \<not> slow0 then
                          (if HeapTupleHasVarWidth tuple
                           then list_ex (\<lambda>j. attlen (att ! j) \<le> 0) [0..<Suc attnum]
                           else False)
                        else True)
                 in
                 if \<not> slow then
                   (let n = natts tupleDesc;
                        cache1 = cache[0 := 0];
                        j = nocache_skip cache1 n 1;
                        off = cache1 ! (j - 1) + attlen (att ! (j - 1));
                        cache2 = nocache_init att n j off cache1
                    in Inr (fetchatt (att ! attnum) (drop (nat (cache2 ! attnum)) tp), cache2))
                 else
                   (case nocache_walk att (HeapTupleHasNulls tuple) bp tp attnum 0 0 True cache of
                      Inl e \<Rightarrow> Inl e
                    | Inr (off, cache1) \<Rightarrow>
                        Inr (fetchatt (att ! attnum) (drop off tp), cache1))))))"

section \<open>Rebuilding a tuple\<close>

text \<open>
  The identification info that \<open>heap_modify_tuple\<close> and
  \<open>heap_modify_tuple_by_cols\<close> copy from the old tuple onto the new one.
\<close>

definition copy_identity ::
  "nat \<Rightarrow> bool \<Rightarrow> HeapTupleData \<Rightarrow> HeapTupleHeaderData \<Rightarrow> HeapTupleData \<Rightarrow>
   HeapTupleHeaderData \<Rightarrow> HeapTupleData" where
  "copy_identity t_bits_off hasoid tuple old newTuple new =
     (let new1 = new\<lparr>t_ctid := t_ctid old\<rparr>;
          new2 = (if hasoid
                  then HeapTupleHeaderSetOid t_bits_off new1 (HeapTupleHeaderGetOid t_bits_off old)
                  else new1)
      in newTuple\<lparr>t_self := t_self tuple, t_tableOid := t_tableOid tuple, t_data := Some new2\<rparr>)"

definition heap_modify_tuple ::
  "nat \<Rightarrow> (nat \<Rightarrow> bool \<Rightarrow> Datum \<Rightarrow> nat \<Rightarrow> bool \<Rightarrow> Datum \<Rightarrow> nat \<Rightarrow> int) \<Rightarrow>
   HeapTupleData \<Rightarrow> TupleDesc \<Rightarrow> Datum list \<Rightarrow> bool list \<Rightarrow> bool list \<Rightarrow> int list \<Rightarrow>
   error + (HeapTupleData \<times> int list)" where
  "heap_modify_tuple t_bits_off EvaluateShardId tuple tupleDesc replValues replIsnull doReplace cache =
     (let numberOfAttributes = natts tupleDesc in
      case heap_deform_tuple t_bits_off tuple tupleDesc
             (replicate numberOfAttributes (Scalar 0)) (replicate numberOfAttributes False) cache of
        Inl e \<Rightarrow> Inl e
      | Inr (values0, isnull0, cache1) \<Rightarrow>
          (let values = fold (\<lambda>attoff vs. if doReplace ! attoff then vs[attoff := replValues ! attoff] else vs)
                          [0..<numberOfAttributes] values0;
               isnull = fold (\<lambda>attoff ns. if doReplace ! attoff then ns[attoff := replIsnull ! attoff] else ns)
                          [0..<numberOfAttributes] isnull0
           in
           case heap_form_tuple t_bits_off EvaluateShardId tupleDesc values isnull of
             Inl e \<Rightarrow> Inl e
           | Inr newTuple \<Rightarrow>
               (case (t_data tuple, t_data newTuple) of
                  (Some old, Some new) \<Rightarrow>
                    Inr ((copy_identity t_bits_off (tdhasoid tupleDesc) tuple old newTuple new)
                           \<lparr>t_xc_node_id := t_xc_node_id tuple\<rparr>,
                         cache1)
                | _ \<Rightarrow> Inl NullPointerDereference)))"

text \<open>The replacement loop of \<open>heap_modify_tuple_by_cols\<close>.\<close>

definition modify_col ::
  "nat \<Rightarrow> int list \<Rightarrow> Datum list \<Rightarrow> bool list \<Rightarrow> nat \<Rightarrow>
   error + (Datum list \<times> bool list) \<Rightarrow> error + (Datum list \<times> bool list)" where
  "modify_col numberOfAttributes replCols replValues replIsnull i r =
     (case r of
        Inl e \<Rightarrow> Inl e
      | Inr (values, isnull) \<Rightarrow>
          (let attnum = replCols ! i in
           if attnum \<le> 0 \<or> attnum > int numberOfAttributes then
             Inl (elog_ERROR ''invalid column number %d'' [attnum])
           else
             Inr (values[nat (attnum - 1) := replValues ! i],
                  isnull[nat (attnum - 1) := replIsnull ! i])))"

definition heap_modify_tuple_by_cols ::
  "nat \<Rightarrow> (nat \<Rightarrow> bool \<Rightarrow> Datum \<Rightarrow> nat \<Rightarrow> bool \<Rightarrow> Datum \<Rightarrow> nat \<Rightarrow> int) \<Rightarrow>
   HeapTupleData \<Rightarrow> TupleDesc \<Rightarrow> nat \<Rightarrow> int list \<Rightarrow> Datum list \<Rightarrow> bool list \<Rightarrow> int list \<Rightarrow>
   error + (HeapTupleData \<times> int list)" where
  "heap_modify_tuple_by_cols t_bits_off EvaluateShardId tuple tupleDesc nCols replCols
     replValues replIsnull cache =
     (let numberOfAttributes = natts tupleDesc in
      case heap_deform_tuple t_bits_off tuple tupleDesc
             (replicate numberOfAttributes (Scalar 0)) (replicate numberOfAttributes False) cache of
        Inl e \<Rightarrow> Inl e
      | Inr (values0, isnull0, cache1) \<Rightarrow>
          (case fold (modify_col numberOfAttributes replCols replValues replIsnull) [0..<nCols]
                  (Inr (values0, isnull0)) of
             Inl e \<Rightarrow> Inl e
           | Inr (values, isnull) \<Rightarrow>
               (case heap_form_tuple t_bits_off EvaluateShardId tupleDesc values isnull of
                  Inl e \<Rightarrow> Inl e
                | Inr newTuple \<Rightarrow>
                    (case (t_data tuple, t_data newTuple) of
                       (Some old, Some new) \<Rightarrow>
                         Inr (copy_identity t_bits_off (tdhasoid tupleDesc) tuple old newTuple new,
                              cache1)
                     | _ \<Rightarrow> Inl NullPointerDereference))))"

subsection \<open>\<open>expand_tuple\<close>\<close>

text \<open>The search for \<open>firstmissingnum\<close>, which leaves at the first missing value present.\<close>

function first_missing :: "AttrMissing list \<Rightarrow> nat \<Rightarrow> nat \<Rightarrow> nat" where
  "first_missing attrmiss n firstmissingnum =
     (if firstmissingnum < n then
        (if ammissingPresent (attrmiss ! firstmissingnum) then firstmissingnum
         else first_missing attrmiss n (Suc firstmissingnum))
      else firstmissingnum)"
  by pat_completeness auto
termination
  by (relation "measure (\<lambda>(attrmiss, n, f). n - f)") auto

text \<open>The walk over the missing attributes that makes space for their values.\<close>

definition expand_size ::
  "TupleDesc \<Rightarrow> AttrMissing list \<Rightarrow> nat \<Rightarrow> bool \<times> nat \<Rightarrow> bool \<times> nat" where
  "expand_size tupleDesc attrmiss attnum r =
     (case r of
        (hasNulls, targetDataLen) \<Rightarrow>
          if ammissingPresent (attrmiss ! attnum) then
            (let att = attrs tupleDesc ! attnum;
                 aligned = att_align_datum targetDataLen (attalign att) (attlen att)
                             (ammissing (attrmiss ! attnum))
             in (hasNulls,
                 att_addlength_pointer aligned (attlen att)
                   (DatumGetPointer (ammissing (attrmiss ! attnum)))))
          else (True, targetDataLen))"

text \<open>The loop that fills in the missing values.\<close>

definition expand_fill ::
  "TupleDesc \<Rightarrow> AttrMissing list option \<Rightarrow> nat \<Rightarrow> error + fill_state \<Rightarrow> error + fill_state" where
  "expand_fill tupleDesc attrmiss attnum r =
     (case r of
        Inl e \<Rightarrow> Inl e
      | Inr st \<Rightarrow>
          (let attr = attrs tupleDesc ! attnum;
               present = (case attrmiss of
                            None \<Rightarrow> False
                          | Some am \<Rightarrow> ammissingPresent (am ! attnum))
           in
           if present then
             fill_val attr (fs_bitP st \<noteq> None) st
               (case attrmiss of None \<Rightarrow> Scalar 0 | Some am \<Rightarrow> ammissing (am ! attnum)) False
           else fill_val attr True st (Scalar 0) True))"

text \<open>
  \<open>expand_tuple\<close> for a heap tuple target (\<open>targetHeapTuple\<close> given,
  \<open>targetMinimalTuple\<close> \<open>NULL\<close>), which is how \<open>heap_expand_tuple\<close> calls it.
\<close>

definition expand_tuple :: "nat \<Rightarrow> HeapTupleData \<Rightarrow> TupleDesc \<Rightarrow> error + HeapTupleData" where
  "expand_tuple t_bits_off sourceTuple tupleDesc =
     (case t_data sourceTuple of
        None \<Rightarrow> Inl NullPointerDereference
      | Some sourceTHeader \<Rightarrow>
          (let attrmiss = constr_missing tupleDesc;
               hasNulls0 = HeapTupleHasNulls sourceTuple;
               sourceNatts = HeapTupleHeaderGetNatts sourceTHeader;
               n = natts tupleDesc;
               sourceNullLen0 = (if hasNulls0 then BITMAPLEN sourceNatts else 0);
               sourceDataLen = t_len sourceTuple - unat (t_hoff sourceTHeader);
               (hasNulls, targetDataLen) =
                 (case attrmiss of
                    Some am \<Rightarrow>
                      (let firstmissingnum = first_missing am n sourceNatts in
                       if n \<le> firstmissingnum then (True, sourceDataLen)
                       else fold (expand_size tupleDesc am) [firstmissingnum..<n]
                              (hasNulls0, sourceDataLen))
                  | None \<Rightarrow> (True, sourceDataLen));
               targetNullLen = (if hasNulls then BITMAPLEN n else 0);
               len1 = targetNullLen + (if tdhasoid tupleDesc then 4 else 0) + t_bits_off;
               hoff = MAXALIGN len1;
               len = hoff + targetDataLen;
               area0 = replicate (hoff - t_bits_off) 0;
               (nullBits, bitMask, area) =
                 (if 0 < targetNullLen then
                    (if 0 < sourceNullLen0 then
                       (Some (int sourceNullLen0 - 1),
                        (2::int) ^ nat ((int sourceNatts - 1) mod 8),
                        mem_write area0 0 (mem_read (t_raw sourceTHeader) 0 sourceNullLen0))
                     else
                       (let sourceNullLen = BITMAPLEN sourceNatts;
                            area1 = mem_write area0 0 (replicate sourceNullLen 0xFF);
                            nb = int sourceNullLen - 1;
                            area2 = (if sourceNatts mod 8 \<noteq> 0
                                     then poke area1 nb (NOT (push_bit (sourceNatts mod 8) 0xFF))
                                     else area1)
                        in (Some nb, (2::int) ^ nat ((int sourceNatts - 1) mod 8), area2)))
                  else (None, 0, area0));
               targetData =
                 mem_write (replicate targetDataLen 0) 0
                   (mem_read (tuple_data t_bits_off sourceTHeader) 0 sourceDataLen)
           in
           case fold (expand_fill tupleDesc attrmiss) [sourceNatts..<n]
                  (Inr \<lparr>fs_bitP = nullBits, fs_bitmask = bitMask, fs_dataP = sourceDataLen,
                        fs_infomask = t_infomask sourceTHeader, fs_bits = area,
                        fs_data = targetData\<rparr>) of
             Inl e \<Rightarrow> Inl e
           | Inr st \<Rightarrow>
               Inr \<lparr>t_len = len, t_self = t_self sourceTuple,
                    t_tableOid = t_tableOid sourceTuple, t_xc_node_id = 0,
                    t_data =
                      Some (HeapTupleHeaderSetNatts
                              \<lparr>t_xmin = len, t_xmax = nat (tdtypmod tupleDesc mod 2 ^ 32),
                               t_field3 = tdtypeid tupleDesc,
                               t_xmin_timestamp = 0, t_xmax_timestamp = 0,
                               t_ctid = ItemPointerSetInvalid,
                               t_infomask2 = 0,
                               t_infomask = fs_infomask st,
                               t_hoff = of_nat hoff,
                               t_shardid = 0,
                               t_raw = fs_bits st @ fs_data st\<rparr>
                              n)\<rparr>))"

definition heap_expand_tuple :: "nat \<Rightarrow> HeapTupleData \<Rightarrow> TupleDesc \<Rightarrow> error + HeapTupleData" where
  "heap_expand_tuple t_bits_off sourceTuple tupleDesc = expand_tuple t_bits_off sourceTuple tupleDesc"

section \<open>Well-formed descriptors, and the examples the theorems are run on\<close>

text \<open>
  What the catalog guarantees of an attribute: a pass-by-value attribute is 1,
  2, 4 or 8 bytes long (\<open>store_att_byval\<close> knows no other length); one passed
  by reference has a positive length, is a varlena (\<open>-1\<close>) or is a cstring
  (\<open>-2\<close>), which has alignment \<open>c\<close> (asserted in \<open>fill_val\<close>).
\<close>

definition att_wellformed :: "Form_pg_attribute \<Rightarrow> bool" where
  "att_wellformed att =
     (if attbyval att then attlen att = 1 \<or> attlen att = 2 \<or> attlen att = 4 \<or> attlen att = 8
      else 0 < attlen att \<or> attlen att = -1 \<or> attlen att = -2 \<and> attalign att = CHR ''c'')"

definition desc_wellformed :: "TupleDesc \<Rightarrow> bool" where
  "desc_wellformed tupleDesc =
     (length (tuple_att tupleDesc) = natts tupleDesc
      \<and> list_all att_wellformed (tuple_att tupleDesc))"

text \<open>An \<open>int4\<close> column, packable and non-packable \<open>text\<close>-like columns, and descriptors of them.\<close>

definition int4_att :: Form_pg_attribute where
  "int4_att = \<lparr>atttypid = 23, attlen = 4, attbyval = True, attstorage = CHR ''p'',
               attalign = CHR ''i'', attisdropped = False, atthasmissing = False\<rparr>"

definition text_att :: Form_pg_attribute where
  "text_att = \<lparr>atttypid = 25, attlen = -1, attbyval = False, attstorage = CHR ''x'',
               attalign = CHR ''i'', attisdropped = False, atthasmissing = False\<rparr>"

definition plain_att :: Form_pg_attribute where
  "plain_att = \<lparr>atttypid = 30, attlen = -1, attbyval = False, attstorage = CHR ''p'',
                attalign = CHR ''i'', attisdropped = False, atthasmissing = False\<rparr>"

definition make_desc :: "Form_pg_attribute list \<Rightarrow> AttrMissing list option \<Rightarrow> TupleDesc" where
  "make_desc atts missing =
     \<lparr>attrs = atts, attrs_ext = [], transp_crypt_attrs_ext = False, tdhasoid = False,
      tdtypeid = 0, tdtypmod = -1, constr_missing = missing\<rparr>"


definition empty_slot :: "TupleDesc \<Rightarrow> HeapTupleData option \<Rightarrow> TupleTableSlot" where
  "empty_slot tupleDesc tuple =
     \<lparr>tts_tuple = tuple, tts_is_minhdr = False, tts_tupleDescriptor = tupleDesc,
      tts_values = replicate (natts tupleDesc) (Scalar 0),
      tts_isnull = replicate (natts tupleDesc) False,
      tts_nvalid = 0, tts_off = 0, tts_slow = False, tts_datarow = None\<rparr>"

definition empty_fill_state :: "nat \<Rightarrow> nat \<Rightarrow> fill_state" where
  "empty_fill_state dataP n =
     \<lparr>fs_bitP = None, fs_bitmask = 0, fs_dataP = dataP, fs_infomask = 0, fs_bits = [],
      fs_data = replicate n 0\<rparr>"

text \<open>A varlena in plain 4-byte-header form whose payload is \<open>n\<close> letters \<open>a\<close> (\<open>n < 252\<close>).\<close>

definition text_value :: "nat \<Rightarrow> byte list" where
  "text_value n = [0, 0, 0, of_nat (n + 4)] @ replicate n 97"




text \<open>
  A row of three \<open>int4\<close> columns, 1, 2 and 3, without nulls, as \<open>heap_form_tuple\<close>
  builds it when \<open>t_bits\<close> is at offset 23, and a descriptor of five columns
  for it: the fourth was added without a default, the fifth with the default
  42. \<open>expand_result\<close> is what \<open>heap_expand_tuple\<close> makes of the row.
\<close>

definition absent :: AttrMissing where
  "absent = \<lparr>ammissingPresent = False, ammissing = Scalar 0\<rparr>"

definition expand_desc :: TupleDesc where
  "expand_desc =
     make_desc [int4_att, int4_att, int4_att, int4_att, int4_att\<lparr>atthasmissing := True\<rparr>]
       (Some [absent, absent, absent, absent,
              \<lparr>ammissingPresent = True, ammissing = Scalar 42\<rparr>])"

definition expand_source_header :: HeapTupleHeaderData where
  "expand_source_header =
     \<lparr>t_xmin = 36, t_xmax = 4294967295, t_field3 = 0, t_xmin_timestamp = 0,
      t_xmax_timestamp = 0, t_ctid = ItemPointerSetInvalid, t_infomask2 = 3,
      t_infomask = 0, t_hoff = 24, t_shardid = -1,
      t_raw = [0, 0, 0, 0, 1, 0, 0, 0, 2, 0, 0, 0, 3]\<rparr>"

definition expand_source :: HeapTupleData where
  "expand_source =
     \<lparr>t_len = 36, t_self = ItemPointerSetInvalid, t_tableOid = 0, t_xc_node_id = 0,
      t_data = Some expand_source_header\<rparr>"

definition expand_result_header :: HeapTupleHeaderData where
  "expand_result_header =
     \<lparr>t_xmin = 40, t_xmax = 4294967295, t_field3 = 0, t_xmin_timestamp = 0,
      t_xmax_timestamp = 0, t_ctid = ItemPointerSetInvalid, t_infomask2 = 5,
      t_infomask = 1, t_hoff = 24, t_shardid = 0,
      t_raw = [0, 0, 0, 0, 1, 0, 0, 0, 2, 0, 0, 0, 3, 0, 0, 0, 42]\<rparr>"

definition expand_result :: HeapTupleData where
  "expand_result =
     \<lparr>t_len = 40, t_self = ItemPointerSetInvalid, t_tableOid = 0, t_xc_node_id = 0,
      t_data = Some expand_result_header\<rparr>"

text \<open>
  A row with the single \<open>int4\<close> column 7, and a descriptor of two columns for
  it whose second column was added with the default 42 and dropped later.
\<close>

definition dropped_desc :: TupleDesc where
  "dropped_desc =
     make_desc [int4_att, int4_att\<lparr>attisdropped := True, atthasmissing := True\<rparr>]
       (Some [absent, \<lparr>ammissingPresent = True, ammissing = Scalar 42\<rparr>])"

definition short_header :: HeapTupleHeaderData where
  "short_header =
     \<lparr>t_xmin = 28, t_xmax = 4294967295, t_field3 = 0, t_xmin_timestamp = 0,
      t_xmax_timestamp = 0, t_ctid = ItemPointerSetInvalid, t_infomask2 = 1,
      t_infomask = 0, t_hoff = 24, t_shardid = -1, t_raw = [0, 0, 0, 0, 7]\<rparr>"

definition short_tuple :: HeapTupleData where
  "short_tuple =
     \<lparr>t_len = 28, t_self = ItemPointerSetInvalid, t_tableOid = 0, t_xc_node_id = 0,
      t_data = Some short_header\<rparr>"

text \<open>
  A varlena in compressed 4-byte-header form (the second bit of the header
  set) with \<open>n\<close> bytes after the header (\<open>n < 252\<close>).
\<close>

definition compressed_value :: "nat \<Rightarrow> byte list" where
  "compressed_value n = [64, 0, 0, of_nat (n + 4)] @ replicate n 7"

section \<open>What \<open>fill_val\<close> stores for a value\<close>








section \<open>Basic facts about memory\<close>

lemma length_mem_read [simp]: "length (mem_read m p n) = n"
  by (simp add: mem_read_def)

lemma length_mem_write [simp]: "length (mem_write m p bs) = length m"
  by (simp add: mem_write_def)

lemma mem_read_mem_read: "mem_read (mem_read m 0 n) 0 n = mem_read m 0 n"
  by (simp add: mem_read_def byte_at_def)

lemma mem_read_exact: "length m = n \<Longrightarrow> mem_read m 0 n = m"
  by (simp add: mem_read_def byte_at_def list_eq_iff_nth_eq)

lemma mem_read_0 [simp]: "mem_read m p 0 = []"
  by (simp add: mem_read_def)

lemma mem_read_Suc: "mem_read m p (Suc n) = byte_at m p # mem_read m (Suc p) n"
  by (simp add: mem_read_def upt_rec)

text \<open>Rules that evaluate memory operations on numerals.\<close>

lemma replicate_numeral_eval: "replicate (numeral k) x = x # replicate (pred_numeral k) x"
  by (simp add: numeral_eq_Suc)

lemma mem_read_numeral:
  "mem_read m p (numeral k) = byte_at m p # mem_read m (Suc p) (pred_numeral k)"
  by (simp add: numeral_eq_Suc mem_read_Suc)

lemmas mem_eval = byte_at_def mem_read_numeral mem_read_Suc replicate_numeral_eval mem_write_def

lemma be_bytes_numeral:
  "be_bytes (numeral k) x = be_bytes (pred_numeral k) (x div 256) @ [of_nat (x mod 256)]"
proof -
  have "numeral k = Suc (pred_numeral k)" by (rule numeral_eq_Suc)
  then show ?thesis by (simp only: be_bytes.simps)
qed

lemma be_value4: "be_value [a, b, c, d] = ((unat a * 256 + unat b) * 256 + unat c) * 256 + unat d"
  by (simp add: be_value_def)

lemma upt_eval5: "[3..<5] = [3, 4]" "[4..<5] = [4]" "[0..<5] = [0, 1, 2, 3, 4]" "[5..<5] = []"
  "[0..<3] = [0, 1, 2]"
  by (simp_all add: upt_rec)

lemma upt_eval2: "[0..<Suc 0] = [0]" "[1..<2] = [1]" "[Suc 0..<2] = [Suc 0]" "[0..<1] = [0]"
  by (simp_all add: upt_rec)

lemma deform_att_null:
  "hasnulls \<Longrightarrow> att_isnull attnum bp \<Longrightarrow>
   deform_att att hasnulls bp tp attnum st =
     st\<lparr>ds_values := (ds_values st)[attnum := Scalar 0],
        ds_isnull := (ds_isnull st)[attnum := True], ds_slow := True\<rparr>"
  by (simp add: deform_att_def)

lemma mem_write_in_range:
  "p + length bs \<le> length m \<Longrightarrow> mem_write m p bs = take p m @ bs @ drop (p + length bs) m"
  by (simp add: mem_write_def)

section \<open>Claims about copying\<close>

text \<open>
  C10. \<open>heap_copytuple\<close> returns \<open>NULL\<close> for an invalid tuple pointer and for a
  tuple whose \<open>t_data\<close> is \<open>NULL\<close>. For every other tuple it returns a copy
  with the same \<open>t_len\<close>, \<open>t_self\<close> and \<open>t_tableOid\<close> whose data are the
  \<open>t_len\<close> bytes of the tuple's, and copying the copy gives the copy again.
\<close>

theorem heap_copytuple_copy:
  "heap_copytuple t_bits_off None = None
   \<and> heap_copytuple t_bits_off (Some (t\<lparr>t_data := None\<rparr>)) = None
   \<and> (\<exists>c. heap_copytuple t_bits_off (Some (t\<lparr>t_data := Some td\<rparr>)) = Some c
        \<and> t_len c = t_len t \<and> t_self c = t_self t \<and> t_tableOid c = t_tableOid t
        \<and> t_data c = Some (td\<lparr>t_raw := mem_read (t_raw td) 0 (t_len t - t_bits_off)\<rparr>)
        \<and> heap_copytuple t_bits_off (Some c) = Some c)"
  by (simp add: heap_copytuple_def memcpy_tuple_def mem_read_mem_read)

theorem heap_copytuple_copy_witness:
  "\<exists>c. heap_copytuple 23
          (Some \<lparr>t_len = 27, t_self = \<lparr>ip_blkid = 7, ip_posid = 3\<rparr>, t_tableOid = 16384,
                 t_xc_node_id = 0,
                 t_data = Some \<lparr>t_xmin = 0, t_xmax = 0, t_field3 = 0, t_xmin_timestamp = 0,
                                 t_xmax_timestamp = 0, t_ctid = ItemPointerSetInvalid,
                                 t_infomask2 = 1, t_infomask = 0, t_hoff = 24, t_shardid = 0,
                                 t_raw = [0, 0, 0, 7]\<rparr>\<rparr>) = Some c
       \<and> t_len c = 27 \<and> t_tableOid c = 16384
       \<and> map_option t_raw (t_data c) = Some [0, 0, 0, 7]
       \<and> heap_copytuple 23 (Some c) = Some c"
  using heap_copytuple_copy [of 23
      "\<lparr>t_len = 27, t_self = \<lparr>ip_blkid = 7, ip_posid = 3\<rparr>, t_tableOid = 16384,
        t_xc_node_id = 0, t_data = None\<rparr>"
      "\<lparr>t_xmin = 0, t_xmax = 0, t_field3 = 0, t_xmin_timestamp = 0,
        t_xmax_timestamp = 0, t_ctid = ItemPointerSetInvalid,
        t_infomask2 = 1, t_infomask = 0, t_hoff = 24, t_shardid = 0,
        t_raw = [0, 0, 0, 7]\<rparr>"]
  by (auto simp: mem_read_exact)

section \<open>Attribute numbers beyond the descriptor\<close>

text \<open>
  C9. For a slot whose \<open>tts_nvalid\<close> does not exceed its descriptor's \<open>natts\<close>
  (the arrays of a slot have \<open>natts\<close> entries, and no routine here sets
  \<open>tts_nvalid\<close> beyond it) and an attribute number greater than \<open>natts\<close>,
  \<open>slot_getattr\<close> returns the zero Datum with \<open>*isnull\<close> true and
  \<open>slot_attisnull\<close> returns true; neither raises an error or touches the slot.
\<close>

theorem slot_getattr_beyond_natts:
  assumes "int (natts (tts_tupleDescriptor slot)) < attnum"
    and "tts_nvalid slot \<le> natts (tts_tupleDescriptor slot)"
  shows "slot_getattr t_bits_off slot attnum cache = Inr (Scalar 0, True, slot, cache)
         \<and> slot_attisnull slot attnum = Inr (True, slot)"
  using assms by (simp add: slot_getattr_def slot_attisnull_def Let_def)


theorem slot_getattr_beyond_natts_witness:
  "slot_getattr 23 (empty_slot (make_desc [int4_att] None) None) 2 [-1]
     = Inr (Scalar 0, True, empty_slot (make_desc [int4_att] None) None, [-1])
   \<and> slot_attisnull (empty_slot (make_desc [int4_att] None) None) 2
     = Inr (True, empty_slot (make_desc [int4_att] None) None)"
  using slot_getattr_beyond_natts [of "empty_slot (make_desc [int4_att] None) None" 2 23 "[-1]"]
  by (simp add: empty_slot_def make_desc_def natts_def)

section \<open>Size agreement\<close>

lemma CAN_MAKE_SHORT_not_1B:
  "VARATT_CAN_MAKE_SHORT p \<Longrightarrow> \<not> VARATT_IS_1B p \<and> \<not> VARATT_IS_1B_E p"
  by (auto simp: VARATT_CAN_MAKE_SHORT_def VARATT_IS_4B_U_def VARATT_IS_1B_def VARATT_IS_1B_E_def)

lemma IS_1B_E_IS_1B: "VARATT_IS_1B_E p \<Longrightarrow> VARATT_IS_1B p"
  by (simp add: VARATT_IS_1B_E_def VARATT_IS_1B_def)

lemma length_be_bytes [simp]: "length (be_bytes n x) = n"
  by (induction n arbitrary: x) auto

lemma store_att_byval_ok:
  "attlen att = 1 \<or> attlen att = 2 \<or> attlen att = 4 \<or> attlen att = 8 \<Longrightarrow>
   \<exists>bs. store_att_byval d (attlen att) = Inr bs \<and> length bs = nat (attlen att)"
  by (auto simp: store_att_byval_def)

lemma fill_val_data_dataP:
  assumes "att_wellformed att"
  shows "\<exists>st1. fill_val_data att st datum = Inr st1
           \<and> fs_dataP st1 = compute_att_size att datum (fs_dataP st)
           \<and> fs_bitP st1 = fs_bitP st \<and> fs_bitmask st1 = fs_bitmask st \<and> fs_bits st1 = fs_bits st"
proof (cases "attbyval att")
  case True
  with assms have l: "attlen att = 1 \<or> attlen att = 2 \<or> attlen att = 4 \<or> attlen att = 8"
    by (simp add: att_wellformed_def)
  from store_att_byval_ok [OF l, of datum] obtain bs where
    "store_att_byval datum (attlen att) = Inr bs" by blast
  with True l show ?thesis
    by (auto simp: fill_val_data_def compute_att_size_def Let_def ATT_IS_PACKABLE_def
        att_addlength_datum_def att_addlength_pointer_def att_align_datum_def)
next
  case False
  note nb = False
  show ?thesis
  proof (cases "attlen att = -1")
    case True
    show ?thesis using nb True
      by (auto simp: fill_val_data_def compute_att_size_def Let_def ATT_IS_PACKABLE_def
          VARLENA_ATT_IS_PACKABLE_def VARATT_IS_EXTERNAL_EXPANDED_def VARATT_IS_EXTERNAL_def
          VARATT_IS_SHORT_def VARSIZE_SHORT_def VARSIZE_def
          att_addlength_datum_def att_addlength_pointer_def att_align_datum_def VARSIZE_ANY_def
          dest: CAN_MAKE_SHORT_not_1B IS_1B_E_IS_1B)
  next
    case False
    with nb assms have "0 < attlen att \<or> attlen att = -2 \<and> attalign att = CHR ''c''"
      by (simp add: att_wellformed_def)
    then show ?thesis using nb False
      by (auto simp: fill_val_data_def compute_att_size_def Let_def ATT_IS_PACKABLE_def
          att_addlength_datum_def att_addlength_pointer_def att_align_datum_def
          att_align_nominal_def)
  qed
qed

lemma fill_val_next_bit_ok:
  "fs_bitP st \<noteq> None \<Longrightarrow>
   \<exists>st1. fill_val_next_bit st = Inr st1 \<and> fs_bitP st1 \<noteq> None \<and> fs_dataP st1 = fs_dataP st"
  by (auto simp: fill_val_next_bit_def)

lemma fill_val_dataP:
  assumes "att_wellformed att" and "bit_given = (fs_bitP st \<noteq> None)"
    and "fs_bitP st = None \<longrightarrow> \<not> isnull"
  shows "\<exists>st1. fill_val att bit_given st datum isnull = Inr st1
           \<and> fs_dataP st1 = (if isnull then fs_dataP st else compute_att_size att datum (fs_dataP st))
           \<and> (fs_bitP st1 = None \<longleftrightarrow> fs_bitP st = None)"
proof (cases "fs_bitP st")
  case None
  with assms fill_val_data_dataP [OF assms(1), of st datum] show ?thesis
    by (auto simp: fill_val_def)
next
  case (Some p)
  then obtain st1 where st1: "fill_val_next_bit st = Inr st1" "fs_bitP st1 \<noteq> None"
      "fs_dataP st1 = fs_dataP st"
    using fill_val_next_bit_ok [of st] by auto
  then obtain q where q: "fs_bitP st1 = Some q" by auto
  let ?st2 = "st1\<lparr>fs_bits := poke (fs_bits st1) q (peek (fs_bits st1) q OR of_int (fs_bitmask st1))\<rparr>"
  from fill_val_data_dataP [OF assms(1), of ?st2 datum] st1 q Some assms(2)
  show ?thesis
    by (auto simp: fill_val_def)
qed

lemma heap_fill_fold_dataP:
  assumes wf: "desc_wellformed tupleDesc"
    and nn: "fs_bitP st0 = None \<longrightarrow> \<not> list_ex (\<lambda>i. isnull ! i) [0..<natts tupleDesc]"
  shows "k \<le> natts tupleDesc \<Longrightarrow>
         \<exists>st. fold (heap_fill_step tupleDesc (Some values) (Some isnull)) [0..<k] (Inr st0) = Inr st
            \<and> fs_dataP st =
                fold (\<lambda>i data_length.
                        if isnull ! i then data_length
                        else compute_att_size (tuple_att tupleDesc ! i) (values ! i) data_length)
                  [0..<k] (fs_dataP st0)
            \<and> (fs_bitP st = None \<longleftrightarrow> fs_bitP st0 = None)"
proof (induction k)
  case 0
  then show ?case by simp
next
  case (Suc k)
  then obtain st where st:
    "fold (heap_fill_step tupleDesc (Some values) (Some isnull)) [0..<k] (Inr st0) = Inr st"
    "fs_dataP st =
       fold (\<lambda>i data_length.
               if isnull ! i then data_length
               else compute_att_size (tuple_att tupleDesc ! i) (values ! i) data_length)
         [0..<k] (fs_dataP st0)"
    "fs_bitP st = None \<longleftrightarrow> fs_bitP st0 = None"
    by auto
  from wf Suc.prems have w: "att_wellformed (tuple_att tupleDesc ! k)"
    by (simp add: desc_wellformed_def list_all_length)
  from nn st(3) Suc.prems have nk: "fs_bitP st = None \<longrightarrow> \<not> isnull ! k"
    by (auto simp: list_ex_iff)
  from fill_val_dataP [OF w refl nk, of "values ! k"] obtain st1 where st1:
    "fill_val (tuple_att tupleDesc ! k) (fs_bitP st \<noteq> None) st (values ! k) (isnull ! k) = Inr st1"
    "fs_dataP st1 = (if isnull ! k then fs_dataP st
                     else compute_att_size (tuple_att tupleDesc ! k) (values ! k) (fs_dataP st))"
    "fs_bitP st1 = None \<longleftrightarrow> fs_bitP st = None"
    by (elim exE conjE) simp
  have "fold (heap_fill_step tupleDesc (Some values) (Some isnull)) [0..<Suc k] (Inr st0) = Inr st1"
    using st(1) st1(1) by (simp add: heap_fill_step_def)
  moreover have "fs_dataP st1 =
      fold (\<lambda>i data_length.
              if isnull ! i then data_length
              else compute_att_size (tuple_att tupleDesc ! i) (values ! i) data_length)
        [0..<Suc k] (fs_dataP st0)"
    using st(2) st1(2) by simp
  ultimately show ?case using st1(3) st(3) by (intro exI [of _ st1]) simp
qed

lemma heap_fill_tuple_ok:
  assumes "desc_wellformed tupleDesc"
    and "bitmap = None \<longrightarrow> \<not> list_ex (\<lambda>i. isnull ! i) [0..<natts tupleDesc]"
  shows "\<exists>st. heap_fill_tuple tupleDesc (Some values) (Some isnull) data infomask bitmap = Inr st
            \<and> fs_dataP st = heap_compute_data_size tupleDesc values isnull"
proof -
  let ?st0 = "\<lparr>fs_bitP = (case bitmap of Some b \<Rightarrow> Some (-1) | None \<Rightarrow> None),
            fs_bitmask = (case bitmap of Some b \<Rightarrow> HIGHBIT | None \<Rightarrow> 0),
            fs_dataP = 0,
            fs_infomask = infomask AND NOT (HEAP_HASNULL OR HEAP_HASVARWIDTH OR HEAP_HASEXTERNAL),
            fs_bits = (case bitmap of Some b \<Rightarrow> b | None \<Rightarrow> []),
            fs_data = data\<rparr>"
  from assms(2) have "fs_bitP ?st0 = None \<longrightarrow> \<not> list_ex (\<lambda>i. isnull ! i) [0..<natts tupleDesc]"
    by (cases bitmap) auto
  from heap_fill_fold_dataP [OF assms(1) this order_refl, of "values"]
  obtain st where
    "fold (heap_fill_step tupleDesc (Some values) (Some isnull)) [0..<natts tupleDesc] (Inr ?st0) = Inr st"
    "fs_dataP st =
       fold (\<lambda>i data_length.
               if isnull ! i then data_length
               else compute_att_size (tuple_att tupleDesc ! i) (values ! i) data_length)
         [0..<natts tupleDesc] 0"
    by (elim exE conjE) simp
  then show ?thesis
    unfolding heap_fill_tuple_def heap_compute_data_size_def
    by (intro exI [of _ st]) simp
qed

text \<open>
  C2. For a well-formed descriptor, and a null bitmap supplied whenever a
  column is null (as \<open>heap_form_tuple_shard\<close> and \<open>heap_form_minimal_tuple\<close>
  supply it), \<open>heap_fill_tuple\<close> returns, and the data cursor has then advanced
  by exactly \<open>heap_compute_data_size(tupleDesc, values, isnull)\<close>: null columns
  add nothing, and short, external, expanded and aligned full-form values add
  what the size computation counted for them.
\<close>

theorem heap_fill_tuple_size:
  assumes "desc_wellformed tupleDesc"
    and "bitmap = None \<longrightarrow> \<not> list_ex (\<lambda>i. isnull ! i) [0..<natts tupleDesc]"
  shows "\<exists>st. heap_fill_tuple tupleDesc (Some values) (Some isnull) data infomask bitmap = Inr st
            \<and> fs_dataP st = heap_compute_data_size tupleDesc values isnull"
  using assms by (rule heap_fill_tuple_ok)

theorem heap_fill_tuple_size_witness:
  "desc_wellformed (make_desc [int4_att, text_att, int4_att] None)
   \<and> (\<exists>st. heap_fill_tuple (make_desc [int4_att, text_att, int4_att] None)
              (Some [Scalar 7, Pointer [0, 0, 0, 7, 97, 98, 99], Scalar 99])
              (Some [False, False, False]) (replicate 12 0) 0 None = Inr st
         \<and> fs_dataP st = heap_compute_data_size (make_desc [int4_att, text_att, int4_att] None)
                           [Scalar 7, Pointer [0, 0, 0, 7, 97, 98, 99], Scalar 99]
                           [False, False, False])
   \<and> heap_compute_data_size (make_desc [int4_att, text_att, int4_att] None)
        [Scalar 7, Pointer [0, 0, 0, 7, 97, 98, 99], Scalar 99] [False, False, False] = 12"
proof -
  have wf: "desc_wellformed (make_desc [int4_att, text_att, int4_att] None)"
    by (simp add: desc_wellformed_def make_desc_def tuple_att_def natts_def att_wellformed_def
        int4_att_def text_att_def)
  have nn: "(None :: byte list option) = None \<longrightarrow>
            \<not> list_ex (\<lambda>i. [False, False, False] ! i)
                 [0..<natts (make_desc [int4_att, text_att, int4_att] None)]"
    by (simp add: natts_def make_desc_def list_ex_iff nth_Cons')
  have sz: "heap_compute_data_size (make_desc [int4_att, text_att, int4_att] None)
        [Scalar 7, Pointer [0, 0, 0, 7, 97, 98, 99], Scalar 99] [False, False, False] = 12"
    by (simp add: heap_compute_data_size_def natts_def make_desc_def tuple_att_def
        compute_att_size_def int4_att_def text_att_def ATT_IS_PACKABLE_def
        VARATT_CAN_MAKE_SHORT_def VARATT_IS_4B_U_def VARATT_CONVERTED_SHORT_SIZE_def
        VARSIZE_def VARSIZE_4B_def VARHDRSZ_def VARHDRSZ_SHORT_def VARATT_SHORT_MAX_def
        DatumGetPointer_def byte_at_def att_addlength_datum_def att_addlength_pointer_def
        att_align_datum_def att_align_nominal_def TYPEALIGN_def VARATT_IS_EXTERNAL_EXPANDED_def
        VARATT_IS_EXTERNAL_def VARATT_IS_1B_E_def)
  from heap_fill_tuple_size [OF wf nn] wf sz show ?thesis by blast
qed

section \<open>The short-form threshold\<close>

lemma IS_4B_U_not_1B: "VARATT_IS_4B_U p \<Longrightarrow> \<not> VARATT_IS_1B p \<and> \<not> VARATT_IS_1B_E p"
  by (auto simp: VARATT_IS_4B_U_def VARATT_IS_1B_def VARATT_IS_1B_E_def)

lemma unat_SET_VARSIZE_SHORT: "unat (SET_VARSIZE_SHORT len) = 128 + len mod 128"
proof -
  have "128 + len mod 128 < 256" by (simp add: less_le_trans [OF mod_less_divisor])
  then show ?thesis unfolding SET_VARSIZE_SHORT_def by (simp only: unat_of_nat) simp
qed

lemma SET_VARSIZE_SHORT_1B: "VARATT_IS_1B (SET_VARSIZE_SHORT len # bs)"
  by (simp add: VARATT_IS_1B_def byte_at_def unat_SET_VARSIZE_SHORT)

lemma SET_VARSIZE_SHORT_size:
  "0 < len \<Longrightarrow> len \<le> 127 \<Longrightarrow> VARSIZE_ANY (SET_VARSIZE_SHORT len # bs) = len"
  by (simp add: VARSIZE_ANY_def VARATT_IS_1B_E_def VARATT_IS_1B_def VARSIZE_1B_def byte_at_def
      unat_SET_VARSIZE_SHORT)


lemma not_1B_mem_read: "\<not> VARATT_IS_1B p \<Longrightarrow> \<not> VARATT_IS_1B (mem_read p 0 n)"
  by (auto simp: VARATT_IS_1B_def mem_read_def byte_at_def nth_append)


text \<open>
  C5, as stated, fails in both halves. A value that arrives in 1-byte-header
  form is copied as it is, without padding, also into a column whose storage
  is \<open>p\<close>: here the 3-byte short varlena \<open>0x83 'a' 'b'\<close> goes to the unaligned
  offset 1 of a non-packable column with 4-byte alignment. And a compressed
  value is never packed, however small: here a compressed value of 54 bytes,
  whose short form would have 51, goes into a packable column with its 4-byte
  header, after three bytes of padding.
\<close>

theorem fill_val_short_form_counterexample:
  "\<not> VARLENA_ATT_IS_PACKABLE plain_att
   \<and> att_align_nominal 1 (attalign plain_att) = 4
   \<and> fill_val_data plain_att (empty_fill_state 1 8) (Pointer [131, 97, 98])
       = Inr ((empty_fill_state 1 8)
                \<lparr>fs_infomask := HEAP_HASVARWIDTH, fs_data := [0, 131, 97, 98, 0, 0, 0, 0],
                 fs_dataP := 4\<rparr>)
   \<and> VARATT_IS_1B (drop 1 [0, 131, 97, 98, 0, 0, 0, 0])
   \<and> VARLENA_ATT_IS_PACKABLE text_att
   \<and> VARATT_CONVERTED_SHORT_SIZE (compressed_value 50) = 51
   \<and> fill_val_data text_att (empty_fill_state 1 64) (Pointer (compressed_value 50))
       = Inr ((empty_fill_state 1 64)
                \<lparr>fs_infomask := HEAP_HASVARWIDTH,
                 fs_data := replicate 4 0 @ compressed_value 50 @ replicate 6 0,
                 fs_dataP := 58\<rparr>)
   \<and> \<not> VARATT_IS_1B (drop 4 (replicate 4 0 @ compressed_value 50 @ replicate 6 0))"
proof -
  have a: "\<not> VARLENA_ATT_IS_PACKABLE plain_att
   \<and> att_align_nominal 1 (attalign plain_att) = 4
   \<and> fill_val_data plain_att (empty_fill_state 1 8) (Pointer [131, 97, 98])
       = Inr ((empty_fill_state 1 8)
                \<lparr>fs_infomask := HEAP_HASVARWIDTH, fs_data := [0, 131, 97, 98, 0, 0, 0, 0],
                 fs_dataP := 4\<rparr>)
   \<and> VARATT_IS_1B (drop 1 [0, 131, 97, 98, 0, 0, 0, 0])"
    by (simp add: VARLENA_ATT_IS_PACKABLE_def plain_att_def att_align_nominal_def TYPEALIGN_def
      fill_val_data_def empty_fill_state_def DatumGetPointer_def VARATT_IS_EXTERNAL_def
      VARATT_IS_1B_E_def VARATT_IS_SHORT_def VARATT_IS_1B_def VARSIZE_SHORT_def VARSIZE_1B_def
      mem_eval HEAP_HASVARWIDTH_def)
  have v: "VARSIZE (compressed_value 50) = 54" "length (compressed_value 50) = 54"
    "byte_at (compressed_value 50) 0 = 64"
    by (simp_all add: VARSIZE_def VARSIZE_4B_def compressed_value_def byte_at_def)
  have c: "VARATT_CONVERTED_SHORT_SIZE (compressed_value 50) = 51"
    by (simp add: VARATT_CONVERTED_SHORT_SIZE_def v VARHDRSZ_def VARHDRSZ_SHORT_def)
  have m: "mem_read (compressed_value 50) 0 54 = compressed_value 50"
    using v(2) by (rule mem_read_exact)
  have w: "mem_write (replicate 64 0) 4 (compressed_value 50)
           = replicate 4 0 @ compressed_value 50 @ replicate 6 0"
    by (simp add: mem_write_def v)
  have al: "att_align_nominal (Suc 0) (CHR ''i'') = 4"
    by (simp add: att_align_nominal_def TYPEALIGN_def)
  have f: "fill_val_data text_att (empty_fill_state 1 64) (Pointer (compressed_value 50))
       = Inr ((empty_fill_state 1 64)
                \<lparr>fs_infomask := HEAP_HASVARWIDTH,
                 fs_data := replicate 4 0 @ compressed_value 50 @ replicate 6 0,
                 fs_dataP := 58\<rparr>)"
    by (simp add: fill_val_data_def text_att_def empty_fill_state_def DatumGetPointer_def
        VARATT_IS_EXTERNAL_def VARATT_IS_1B_E_def VARATT_IS_SHORT_def VARATT_IS_1B_def
        VARATT_CAN_MAKE_SHORT_def VARATT_IS_4B_U_def VARLENA_ATT_IS_PACKABLE_def v m w al
        HEAP_HASVARWIDTH_def)
  have n: "\<not> VARATT_IS_1B (drop 4 (replicate 4 0 @ compressed_value 50 @ replicate 6 0))"
    by (simp add: VARATT_IS_1B_def byte_at_def compressed_value_def)
  have p: "VARLENA_ATT_IS_PACKABLE text_att"
    by (simp add: VARLENA_ATT_IS_PACKABLE_def text_att_def)
  from a p c f n show ?thesis by simp
qed

text \<open>
  C5, amended. When \<open>fill_val\<close> encodes a non-null value of a varlena column:
  a value in plain (uncompressed) 4-byte-header form is written in
  1-byte-header short form, at the cursor and without padding, if the column
  is packable and its short form has at most 127 bytes; every other value
  with a 4-byte header (short form of 128 bytes or more, a non-packable
  column, or a compressed value) is copied with its 4-byte header after
  alignment padding, never in 1-byte form; an expanded value is flattened at
  the aligned cursor; a value that arrives in short form or as an external
  reference that is not expanded is copied with its 1-byte header and no
  padding, whatever the column's storage. So a 200-byte payload in 4-byte
  form encodes full-form and a 50-byte one on a packable column short-form.
\<close>

theorem fill_val_short_form:
  assumes "attlen att = -1" and "\<not> attbyval att"
  shows "(VARATT_IS_4B_U (DatumGetPointer datum)
            \<and> VARLENA_ATT_IS_PACKABLE att
            \<and> VARATT_CONVERTED_SHORT_SIZE (DatumGetPointer datum) \<le> 127 \<longrightarrow>
          fill_val_data att st datum =
            Inr (st\<lparr>fs_infomask := fs_infomask st OR HEAP_HASVARWIDTH,
                    fs_data := mem_write (fs_data st) (fs_dataP st)
                      (SET_VARSIZE_SHORT (VARATT_CONVERTED_SHORT_SIZE (DatumGetPointer datum))
                       # mem_read (VARDATA (DatumGetPointer datum)) 0
                           (VARATT_CONVERTED_SHORT_SIZE (DatumGetPointer datum) - 1)),
                    fs_dataP := fs_dataP st + VARATT_CONVERTED_SHORT_SIZE (DatumGetPointer datum)\<rparr>)
          \<and> VARATT_IS_1B
               (SET_VARSIZE_SHORT (VARATT_CONVERTED_SHORT_SIZE (DatumGetPointer datum))
                # mem_read (VARDATA (DatumGetPointer datum)) 0
                    (VARATT_CONVERTED_SHORT_SIZE (DatumGetPointer datum) - 1)))
       \<and> (\<not> VARATT_IS_1B (DatumGetPointer datum)
            \<and> \<not> (VARATT_IS_4B_U (DatumGetPointer datum)
                   \<and> VARLENA_ATT_IS_PACKABLE att
                   \<and> VARATT_CONVERTED_SHORT_SIZE (DatumGetPointer datum) \<le> 127) \<longrightarrow>
          fill_val_data att st datum =
            Inr (st\<lparr>fs_infomask := fs_infomask st OR HEAP_HASVARWIDTH,
                    fs_data := mem_write (fs_data st) (att_align_nominal (fs_dataP st) (attalign att))
                      (mem_read (DatumGetPointer datum) 0 (VARSIZE (DatumGetPointer datum))),
                    fs_dataP := att_align_nominal (fs_dataP st) (attalign att)
                                  + VARSIZE (DatumGetPointer datum)\<rparr>)
          \<and> \<not> VARATT_IS_1B
                 (mem_read (DatumGetPointer datum) 0 (VARSIZE (DatumGetPointer datum))))
       \<and> (VARATT_IS_EXTERNAL_EXPANDED (DatumGetPointer datum) \<longrightarrow>
          fill_val_data att st datum =
            Inr (st\<lparr>fs_infomask := fs_infomask st OR HEAP_HASVARWIDTH,
                    fs_data := mem_write (fs_data st) (att_align_nominal (fs_dataP st) (attalign att))
                      (EOH_flatten_into (DatumGetEOHP datum)
                         (EOH_get_flat_size (DatumGetEOHP datum))),
                    fs_dataP := att_align_nominal (fs_dataP st) (attalign att)
                                  + EOH_get_flat_size (DatumGetEOHP datum)\<rparr>))
       \<and> (VARATT_IS_1B (DatumGetPointer datum)
            \<and> \<not> VARATT_IS_EXTERNAL_EXPANDED (DatumGetPointer datum) \<longrightarrow>
          fill_val_data att st datum =
            Inr (st\<lparr>fs_infomask :=
                      (if VARATT_IS_EXTERNAL (DatumGetPointer datum)
                       then fs_infomask st OR HEAP_HASVARWIDTH OR HEAP_HASEXTERNAL
                       else fs_infomask st OR HEAP_HASVARWIDTH),
                    fs_data := mem_write (fs_data st) (fs_dataP st)
                      (mem_read (DatumGetPointer datum) 0 (VARSIZE_ANY (DatumGetPointer datum))),
                    fs_dataP := fs_dataP st + VARSIZE_ANY (DatumGetPointer datum)\<rparr>))"
proof (intro conjI impI)
  assume a: "VARATT_IS_4B_U (DatumGetPointer datum) \<and> VARLENA_ATT_IS_PACKABLE att
             \<and> VARATT_CONVERTED_SHORT_SIZE (DatumGetPointer datum) \<le> 127"
  with assms IS_4B_U_not_1B [of "DatumGetPointer datum"]
  show "fill_val_data att st datum =
            Inr (st\<lparr>fs_infomask := fs_infomask st OR HEAP_HASVARWIDTH,
                    fs_data := mem_write (fs_data st) (fs_dataP st)
                      (SET_VARSIZE_SHORT (VARATT_CONVERTED_SHORT_SIZE (DatumGetPointer datum))
                       # mem_read (VARDATA (DatumGetPointer datum)) 0
                           (VARATT_CONVERTED_SHORT_SIZE (DatumGetPointer datum) - 1)),
                    fs_dataP := fs_dataP st + VARATT_CONVERTED_SHORT_SIZE (DatumGetPointer datum)\<rparr>)"
    by (simp add: fill_val_data_def Let_def VARATT_IS_EXTERNAL_def VARATT_IS_SHORT_def
        VARATT_CAN_MAKE_SHORT_def VARATT_SHORT_MAX_def)
  show "VARATT_IS_1B
               (SET_VARSIZE_SHORT (VARATT_CONVERTED_SHORT_SIZE (DatumGetPointer datum))
                # mem_read (VARDATA (DatumGetPointer datum)) 0
                    (VARATT_CONVERTED_SHORT_SIZE (DatumGetPointer datum) - 1))"
    by (rule SET_VARSIZE_SHORT_1B)
next
  assume a: "\<not> VARATT_IS_1B (DatumGetPointer datum)
            \<and> \<not> (VARATT_IS_4B_U (DatumGetPointer datum)
                   \<and> VARLENA_ATT_IS_PACKABLE att
                   \<and> VARATT_CONVERTED_SHORT_SIZE (DatumGetPointer datum) \<le> 127)"
  then have e: "\<not> VARATT_IS_1B_E (DatumGetPointer datum)"
    using IS_1B_E_IS_1B by blast
  from a e assms
  show "fill_val_data att st datum =
            Inr (st\<lparr>fs_infomask := fs_infomask st OR HEAP_HASVARWIDTH,
                    fs_data := mem_write (fs_data st) (att_align_nominal (fs_dataP st) (attalign att))
                      (mem_read (DatumGetPointer datum) 0 (VARSIZE (DatumGetPointer datum))),
                    fs_dataP := att_align_nominal (fs_dataP st) (attalign att)
                                  + VARSIZE (DatumGetPointer datum)\<rparr>)"
    by (auto simp: fill_val_data_def Let_def VARATT_IS_EXTERNAL_def VARATT_IS_SHORT_def
        VARATT_CAN_MAKE_SHORT_def VARATT_SHORT_MAX_def)
  from a show "\<not> VARATT_IS_1B
                 (mem_read (DatumGetPointer datum) 0 (VARSIZE (DatumGetPointer datum)))"
    by (intro not_1B_mem_read) simp
next
  assume a: "VARATT_IS_EXTERNAL_EXPANDED (DatumGetPointer datum)"
  with assms
  show "fill_val_data att st datum =
            Inr (st\<lparr>fs_infomask := fs_infomask st OR HEAP_HASVARWIDTH,
                    fs_data := mem_write (fs_data st) (att_align_nominal (fs_dataP st) (attalign att))
                      (EOH_flatten_into (DatumGetEOHP datum)
                         (EOH_get_flat_size (DatumGetEOHP datum))),
                    fs_dataP := att_align_nominal (fs_dataP st) (attalign att)
                                  + EOH_get_flat_size (DatumGetEOHP datum)\<rparr>)"
    by (simp add: fill_val_data_def Let_def VARATT_IS_EXTERNAL_EXPANDED_def)
next
  assume a: "VARATT_IS_1B (DatumGetPointer datum)
            \<and> \<not> VARATT_IS_EXTERNAL_EXPANDED (DatumGetPointer datum)"
  with assms
  show "fill_val_data att st datum =
            Inr (st\<lparr>fs_infomask :=
                      (if VARATT_IS_EXTERNAL (DatumGetPointer datum)
                       then fs_infomask st OR HEAP_HASVARWIDTH OR HEAP_HASEXTERNAL
                       else fs_infomask st OR HEAP_HASVARWIDTH),
                    fs_data := mem_write (fs_data st) (fs_dataP st)
                      (mem_read (DatumGetPointer datum) 0 (VARSIZE_ANY (DatumGetPointer datum))),
                    fs_dataP := fs_dataP st + VARSIZE_ANY (DatumGetPointer datum)\<rparr>)"
    by (auto simp: fill_val_data_def Let_def VARATT_IS_EXTERNAL_def VARATT_IS_SHORT_def
        VARSIZE_ANY_def VARSIZE_SHORT_def or.assoc)
qed


theorem fill_val_short_form_witness:
  "VARATT_CONVERTED_SHORT_SIZE (text_value 50) = 51
   \<and> fill_val_data text_att (empty_fill_state 1 300) (Pointer (text_value 50))
       = Inr ((empty_fill_state 1 300)
               \<lparr>fs_infomask := 0 OR HEAP_HASVARWIDTH,
                fs_data := mem_write (replicate 300 0) 1
                             (SET_VARSIZE_SHORT 51 # mem_read (VARDATA (text_value 50)) 0 50),
                fs_dataP := 52\<rparr>)
   \<and> VARATT_CONVERTED_SHORT_SIZE (text_value 200) = 201
   \<and> fill_val_data text_att (empty_fill_state 1 300) (Pointer (text_value 200))
       = Inr ((empty_fill_state 1 300)
               \<lparr>fs_infomask := 0 OR HEAP_HASVARWIDTH,
                fs_data := mem_write (replicate 300 0) 4 (mem_read (text_value 200) 0 204),
                fs_dataP := 208\<rparr>)
   \<and> fill_val_data text_att (empty_fill_state 1 300) (Expanded (text_value 50))
       = Inr ((empty_fill_state 1 300)
               \<lparr>fs_infomask := 0 OR HEAP_HASVARWIDTH,
                fs_data := mem_write (replicate 300 0) 4
                             (EOH_flatten_into (text_value 50) (EOH_get_flat_size (text_value 50))),
                fs_dataP := 4 + EOH_get_flat_size (text_value 50)\<rparr>)
   \<and> fill_val_data text_att (empty_fill_state 1 300) (Pointer [131, 97, 98])
       = Inr ((empty_fill_state 1 300)
               \<lparr>fs_infomask := 0 OR HEAP_HASVARWIDTH,
                fs_data := mem_write (replicate 300 0) 1 (mem_read [131, 97, 98] 0 3),
                fs_dataP := 4\<rparr>)"
proof -
  have u: "VARATT_IS_4B_U (text_value 50)" "VARATT_IS_4B_U (text_value 200)"
    by (simp_all add: VARATT_IS_4B_U_def text_value_def byte_at_def)
  have v: "VARSIZE (text_value 50) = 54" "VARSIZE (text_value 200) = 204"
    by (simp_all add: VARSIZE_def VARSIZE_4B_def text_value_def byte_at_def)
  have c: "VARATT_CONVERTED_SHORT_SIZE (text_value 50) = 51"
          "VARATT_CONVERTED_SHORT_SIZE (text_value 200) = 201"
    by (simp_all add: VARATT_CONVERTED_SHORT_SIZE_def v VARHDRSZ_def VARHDRSZ_SHORT_def)
  have p: "VARLENA_ATT_IS_PACKABLE text_att" "attlen text_att = -1" "\<not> attbyval text_att"
          "attalign text_att = CHR ''i''"
    by (simp_all add: VARLENA_ATT_IS_PACKABLE_def text_att_def)
  have al: "att_align_nominal (Suc 0) (CHR ''i'') = 4"
    by (simp add: att_align_nominal_def TYPEALIGN_def)
  have x: "VARATT_IS_EXTERNAL_EXPANDED (DatumGetPointer (Expanded (text_value 50)))"
    "DatumGetEOHP (Expanded (text_value 50)) = text_value 50"
    by (simp_all add: VARATT_IS_EXTERNAL_EXPANDED_def VARATT_IS_EXTERNAL_def VARATT_IS_1B_E_def
        DatumGetPointer_def VARTAG_IS_EXPANDED_def VARTAG_EXTERNAL_def VARTAG_EXPANDED_RO_def
        VARTAG_EXPANDED_RW_def byte_at_def DatumGetEOHP_def)
  have s: "VARATT_IS_1B [131, 97, 98]" "\<not> VARATT_IS_EXTERNAL_EXPANDED [131, 97, 98]"
    "\<not> VARATT_IS_EXTERNAL [131, 97, 98]" "VARSIZE_ANY [131, 97, 98] = 3"
    by (simp_all add: VARATT_IS_1B_def VARATT_IS_EXTERNAL_EXPANDED_def VARATT_IS_EXTERNAL_def
        VARATT_IS_1B_E_def VARSIZE_ANY_def VARSIZE_1B_def byte_at_def)
  from fill_val_short_form [OF p(2) p(3), of "Pointer (text_value 50)" "empty_fill_state 1 300"]
       fill_val_short_form [OF p(2) p(3), of "Pointer (text_value 200)" "empty_fill_state 1 300"]
       fill_val_short_form [OF p(2) p(3), of "Expanded (text_value 50)" "empty_fill_state 1 300"]
       fill_val_short_form [OF p(2) p(3), of "Pointer [131, 97, 98]" "empty_fill_state 1 300"]
       IS_4B_U_not_1B [OF u(1)] IS_4B_U_not_1B [OF u(2)] 
  show ?thesis
    using x s by (simp add: u v c p al DatumGetPointer_def empty_fill_state_def)
qed

section \<open>The normal form of \<open>fill_val\<close>, and the null bitmap\<close>





lemma bit_byte_or_exp:
  "bit ((b::byte) OR of_int (2 ^ j)) i \<longleftrightarrow> bit b i \<or> (i = j \<and> j < 8)"
  by (auto simp: bit_or_iff bit_exp_iff)

















section \<open>The null bitmap and the content flags\<close>





























section \<open>Expanding a row that lacks columns\<close>

lemma expand_source_facts: "natts expand_desc = 5" "HeapTupleHeaderGetNatts expand_source_header = 3"
  "\<not> HeapTupleHasNulls expand_source" "t_len expand_source = 36"
  "unat (t_hoff expand_source_header) = 24" "tdhasoid expand_desc = False"
  "t_infomask expand_source_header = 0"
  "constr_missing expand_desc = Some [absent, absent, absent, absent,
              \<lparr>ammissingPresent = True, ammissing = Scalar 42\<rparr>]"
  "tuple_data 23 expand_source_header = [0, 0, 0, 1, 0, 0, 0, 2, 0, 0, 0, 3]"
  by (simp_all add: natts_def expand_desc_def make_desc_def HeapTupleHeaderGetNatts_def
      expand_source_def expand_source_header_def HEAP_NATTS_MASK_def HeapTupleHasNulls_def
      HEAP_HASNULL_def tuple_data_def)

lemma expand_first_missing: "first_missing [absent, absent, absent, absent,
              \<lparr>ammissingPresent = True, ammissing = Scalar 42\<rparr>] 5 3 = 4"
  by (simp add: absent_def)

lemma expand_size_example: "expand_size expand_desc [absent, absent, absent, absent,
              \<lparr>ammissingPresent = True, ammissing = Scalar 42\<rparr>] 4 (False, 12) = (False, 16)"
  by (simp add: expand_size_def expand_desc_def make_desc_def int4_att_def att_align_datum_def
      att_align_nominal_def TYPEALIGN_def att_addlength_pointer_def)

lemma expand_fill_example: "expand_fill expand_desc (Some [absent, absent, absent, absent,
              \<lparr>ammissingPresent = True, ammissing = Scalar 42\<rparr>]) 4
          (expand_fill expand_desc (Some [absent, absent, absent, absent,
              \<lparr>ammissingPresent = True, ammissing = Scalar 42\<rparr>]) 3
           (Inr \<lparr>fs_bitP = None, fs_bitmask = 0, fs_dataP = 12, fs_infomask = 0,
                 fs_bits = [0], fs_data = [0, 0, 0, 1, 0, 0, 0, 2, 0, 0, 0, 3, 0, 0, 0, 0]\<rparr>))
         = Inr \<lparr>fs_bitP = None, fs_bitmask = 0, fs_dataP = 16, fs_infomask = 1,
                 fs_bits = [0], fs_data = [0, 0, 0, 1, 0, 0, 0, 2, 0, 0, 0, 3, 0, 0, 0, 42]\<rparr>"
  by (simp add: expand_fill_def expand_desc_def make_desc_def int4_att_def absent_def
      fill_val_def fill_val_next_bit_def fill_val_data_def HIGHBIT_def HEAP_HASNULL_def
      store_att_byval_def DatumGetScalar_def be_bytes_numeral att_align_nominal_def
      TYPEALIGN_def mem_write_def)

lemma expand_example: "heap_expand_tuple 23 expand_source expand_desc = Inr expand_result"
proof -
  have d: "t_data expand_source = Some expand_source_header"
    "t_self expand_source = ItemPointerSetInvalid" "t_tableOid expand_source = 0"
    "tdtypmod expand_desc = -1" "tdtypeid expand_desc = 0"
    by (simp_all add: expand_source_def expand_desc_def make_desc_def)
  have m: "mem_read [0, 0, 0, 1, 0, 0, 0, 2, 0, 0, 0, 3] 0 12 = [0, 0, 0, 1, 0, 0, 0, 2, 0, 0, 0, 3]"
    by (rule mem_read_exact) simp
  show ?thesis
    unfolding heap_expand_tuple_def expand_tuple_def
    by (simp add: d expand_source_facts expand_first_missing upt_eval5 expand_size_example BITMAPLEN_def Let_def MAXALIGN_def TYPEALIGN_def m mem_write_def
        replicate_numeral_eval expand_fill_example HeapTupleHeaderSetNatts_def HEAP_NATTS_MASK_def
        expand_result_def expand_result_header_def
        del: first_missing.simps)
qed

lemma expand_result_facts: "natts expand_desc = 5" "HeapTupleHeaderGetNatts expand_result_header = 5"
  "HeapTupleHasNulls expand_result" "t_data expand_result = Some expand_result_header"
  by (simp_all add: natts_def expand_desc_def make_desc_def HeapTupleHeaderGetNatts_def
      expand_result_def expand_result_header_def HEAP_NATTS_MASK_def HeapTupleHasNulls_def
      HEAP_HASNULL_def)

lemma expand_result_null: "i < 8 \<Longrightarrow> att_isnull i (t_raw expand_result_header)"
  by (simp add: att_isnull_def expand_result_header_def byte_at_def)

lemma expand_result_deform: "heap_deform_tuple 23 expand_result expand_desc (replicate 5 (Scalar 0)) (replicate 5 False)
     (replicate 5 (-1)) = Inr (replicate 5 (Scalar 0), replicate 5 True, replicate 5 (-1))"
  by (simp add: heap_deform_tuple_def Let_def expand_result_facts upt_eval5 deform_att_null expand_result_null
      replicate_numeral_eval)

lemma expand_desc_att: "tuple_att expand_desc = [int4_att, int4_att, int4_att, int4_att, int4_att\<lparr>atthasmissing := True\<rparr>]"
  "attrs expand_desc = [int4_att, int4_att, int4_att, int4_att, int4_att\<lparr>atthasmissing := True\<rparr>]"
  by (simp_all add: tuple_att_def expand_desc_def make_desc_def)

lemma expand_source_deform: "heap_deform_tuple 23 expand_source expand_desc (replicate 5 (Scalar 0)) (replicate 5 False)
     (replicate 5 (-1))
   = Inr ([Scalar 1, Scalar 2, Scalar 3, Scalar 0, Scalar 42], [False, False, False, True, False],
          [0, 4, 8, -1, -1])"
proof -
  have d: "t_data expand_source = Some expand_source_header"
    by (simp add: expand_source_def)
  have m: "getmissingattr expand_desc 4 = Inr (Scalar 0, True)"
    "getmissingattr expand_desc 5 = Inr (Scalar 42, False)"
    by (simp_all add: getmissingattr_def expand_desc_def make_desc_def int4_att_def)
  show ?thesis
    by (simp add: heap_deform_tuple_def Let_def d expand_source_facts expand_desc_att upt_eval5 m deform_missing_def
      deform_att_def int4_att_def replicate_numeral_eval att_align_nominal_def
      TYPEALIGN_def fetchatt_def fetch_att_def mem_read_numeral mem_read_Suc byte_at_def be_value4
      att_addlength_pointer_def)
qed

text \<open>
  C7 at a row the code mishandles. The row has the columns 1, 2, 3 and no
  null; the descriptor has five columns, the fourth without a default, the
  fifth with the default 42. \<open>heap_expand_tuple\<close> should give 1, 2, 3, null, 42.
  It sets \<open>HEAP_HASNULL\<close> but makes no room for a null bitmap and writes none
  (\<open>t_hoff\<close> stays 24 and the byte at \<open>t_bits\<close> is the padding byte 0), because
  the search for \<open>firstmissingnum\<close> skips the fourth column without setting
  \<open>hasNulls\<close>. \<open>heap_deform_tuple\<close> then reads all five columns of the result
  as null, while on the unexpanded row it answers 1, 2, 3, null, 42.
\<close>

theorem heap_expand_tuple_loses_bitmap:
  "heap_expand_tuple 23 expand_source expand_desc = Inr expand_result
   \<and> HeapTupleHasNulls expand_result
   \<and> t_hoff expand_result_header = 24
   \<and> t_raw expand_result_header = [0, 0, 0, 0, 1, 0, 0, 0, 2, 0, 0, 0, 3, 0, 0, 0, 42]
   \<and> heap_deform_tuple 23 expand_result expand_desc (replicate 5 (Scalar 0))
         (replicate 5 False) (replicate 5 (-1))
       = Inr (replicate 5 (Scalar 0), replicate 5 True, replicate 5 (-1))
   \<and> heap_deform_tuple 23 expand_source expand_desc (replicate 5 (Scalar 0))
         (replicate 5 False) (replicate 5 (-1))
       = Inr ([Scalar 1, Scalar 2, Scalar 3, Scalar 0, Scalar 42],
              [False, False, False, True, False], [0, 4, 8, -1, -1])"
  using expand_example expand_result_deform expand_source_deform expand_result_facts(3)
  by (simp add: expand_result_header_def)

section \<open>Missing columns in a slot\<close>

lemma short_facts:
  "natts dropped_desc = 2" "HeapTupleHeaderGetNatts short_header = 1"
  "\<not> HeapTupleHasNulls short_tuple" "t_data short_tuple = Some short_header"
  "tuple_data 23 short_header = [0, 0, 0, 7]"
  "tuple_att dropped_desc = [int4_att, int4_att\<lparr>attisdropped := True, atthasmissing := True\<rparr>]"
  "constr_missing dropped_desc = Some [absent, \<lparr>ammissingPresent = True, ammissing = Scalar 42\<rparr>]"
  by (simp_all add: natts_def dropped_desc_def make_desc_def HeapTupleHeaderGetNatts_def
      short_tuple_def short_header_def HEAP_NATTS_MASK_def HeapTupleHasNulls_def
      HEAP_HASNULL_def tuple_data_def tuple_att_def)

lemma short_step:
  "deform_att [int4_att, int4_att\<lparr>attisdropped := True, atthasmissing := True\<rparr>]
     False bp [0, 0, 0, 7] 0
       \<lparr>ds_values = [Scalar 0, Scalar 0], ds_isnull = [False, False],
        ds_cache = [-1, -1], ds_off = 0, ds_slow = False\<rparr>
    = \<lparr>ds_values = [Scalar 7, Scalar 0], ds_isnull = [False, False],
        ds_cache = [0, -1], ds_off = 4, ds_slow = False\<rparr>"
  by (simp add: deform_att_def Let_def int4_att_def att_align_nominal_def
      TYPEALIGN_def fetchatt_def fetch_att_def mem_read_numeral mem_read_Suc byte_at_def be_value4
      att_addlength_pointer_def)

lemma short_deform:
  "heap_deform_tuple 23 short_tuple dropped_desc [Scalar 0, Scalar 0] [False, False] [-1, -1]
   = Inr ([Scalar 7, Scalar 0], [False, True], [0, -1])"
proof -
  have m: "getmissingattr dropped_desc 2 = Inr (Scalar 0, True)"
    by (simp add: getmissingattr_def dropped_desc_def make_desc_def int4_att_def)
  show ?thesis
    by (simp add: heap_deform_tuple_def Let_def short_facts upt_eval2 short_step m deform_missing_def)
qed

lemma short_slot:
  "slot_getsomeattrs 23 (empty_slot dropped_desc (Some short_tuple)) 2 [-1, -1]
   = Inr ((empty_slot dropped_desc (Some short_tuple))
            \<lparr>tts_values := [Scalar 7, Scalar 42], tts_isnull := [False, False],
             tts_nvalid := 2, tts_off := 4, tts_slow := False\<rparr>, [0, -1])"
proof -
  have e: "tts_tuple (empty_slot dropped_desc (Some short_tuple)) = Some short_tuple"
    "tts_nvalid (empty_slot dropped_desc (Some short_tuple)) = 0"
    "tts_datarow (empty_slot dropped_desc (Some short_tuple)) = None"
    "tts_tupleDescriptor (empty_slot dropped_desc (Some short_tuple)) = dropped_desc"
    "tts_values (empty_slot dropped_desc (Some short_tuple)) = [Scalar 0, Scalar 0]"
    "tts_isnull (empty_slot dropped_desc (Some short_tuple)) = [False, False]"
    by (simp_all add: empty_slot_def short_facts replicate_numeral_eval)
  have d: "slot_deform_tuple 23 (empty_slot dropped_desc (Some short_tuple)) (Suc 0) [-1, -1]
     = Inr ((empty_slot dropped_desc (Some short_tuple))
            \<lparr>tts_values := [Scalar 7, Scalar 0], tts_isnull := [False, False],
             tts_nvalid := Suc 0, tts_off := 4, tts_slow := False\<rparr>, [0, -1])"
    by (simp add: slot_deform_tuple_def Let_def e short_facts upt_eval2 short_step)
  show ?thesis
    by (simp add: slot_getsomeattrs_def Let_def e short_facts d slot_getmissingattrs_def upt_eval2
        absent_def)
qed

text \<open>
  C4 at a slot the code mishandles. The slot holds a row with the single
  column 7; its descriptor has a second column that was added with the
  default 42 and then dropped. \<open>heap_deform_tuple\<close> (through \<open>getmissingattr\<close>,
  which looks at \<open>atthasmissing\<close> and \<open>attisdropped\<close>) reads the second column as
  null; \<open>slot_getsomeattrs\<close> for two columns (through \<open>slot_getmissingattrs\<close>,
  which looks at neither) leaves 42, not null, in the slot.
\<close>

theorem slot_getsomeattrs_dropped_missing:
  "slot_getsomeattrs 23 (empty_slot dropped_desc (Some short_tuple)) 2 [-1, -1]
     = Inr ((empty_slot dropped_desc (Some short_tuple))
              \<lparr>tts_values := [Scalar 7, Scalar 42], tts_isnull := [False, False],
               tts_nvalid := 2, tts_off := 4, tts_slow := False\<rparr>, [0, -1])
   \<and> heap_deform_tuple 23 short_tuple dropped_desc [Scalar 0, Scalar 0] [False, False] [-1, -1]
     = Inr ([Scalar 7, Scalar 0], [False, True], [0, -1])"
  using short_slot short_deform by simp

end
